theory Spec2Isabelle
  imports Complex_Main "HOL-Library.Multiset"
begin

section \<open>The movie catalog: data model\<close>

text \<open>
  The service of \<^verbatim>\<open>routes/movies.py\<close> over the schemas of \<^verbatim>\<open>schemas/movies.py\<close>.
  Conventions of the embedding:
  \<^item> a Python \<^verbatim>\<open>str\<close> is a \<open>string\<close>, one \<open>char\<close> standing for one code point, so that
    \<open>length\<close> is Python's \<^verbatim>\<open>len\<close>;
  \<^item> a \<^verbatim>\<open>date\<close> is its proleptic ordinal (\<^verbatim>\<open>date.toordinal()\<close>), an \<open>int\<close>, so that
    \<^verbatim>\<open>d + timedelta(days=365)\<close> is \<open>d + 365\<close>; \<^verbatim>\<open>date.today()\<close> is the parameter \<open>today\<close>;
  \<^item> a finite \<^verbatim>\<open>float\<close> is a \<open>real\<close>; only its comparisons with 0 and 100 are used;
  \<^item> a member of \<^verbatim>\<open>MovieStatusEnum\<close> is its value, a \<open>string\<close>; the enum is declared in
    \<^verbatim>\<open>database.models\<close>, outside the two source files, so the list of its values is the
    parameter \<open>statuses\<close> of every validator that checks membership;
  \<^item> an attribute of a mapped object may hold \<^verbatim>\<open>None\<close>: it is an \<open>option\<close>.
\<close>

subsection \<open>Errors\<close>

text \<open>
  Every \<^verbatim>\<open>raise\<close> of the handlers and every exception of a collaborator that a handler
  can meet. \<open>HTTPException\<close> carries \<^verbatim>\<open>status_code\<close> and \<^verbatim>\<open>detail\<close>.
  \<open>RequestValidationError\<close> is the framework's refusal of a request that fails its schema
  or its \<^verbatim>\<open>Query\<close> bounds, \<open>ResponseValidationError\<close> its refusal of a return value that
  fails the \<^verbatim>\<open>response_model\<close>, \<open>ValidationError\<close> is raised by \<^verbatim>\<open>model_validate\<close>,
  \<open>MultipleResultsFound\<close> by \<^verbatim>\<open>scalar_one_or_none\<close>, and \<open>SQLAlchemyError\<close> stands for
  whatever the store raises when it refuses a flush or a commit.
\<close>

text \<open>
  The \<^verbatim>\<open>detail\<close> of a response, by the message it formats:
  \<open>No_movies_found\<close> is \<^verbatim>\<open>"No movies found."\<close>,
  \<open>Already_exists n d\<close> is \<^verbatim>\<open>f"A movie with the name '{n}' and release date '{d}' already exists."\<close>,
  \<open>Movie_not_found\<close> is \<^verbatim>\<open>"Movie with the given ID was not found."\<close>,
  \<open>Invalid_input_data\<close> is \<^verbatim>\<open>"Invalid input data."\<close> and
  \<open>Movie_updated\<close> is \<^verbatim>\<open>"Movie updated successfully."\<close>.
\<close>

datatype detail =
    No_movies_found
  | Already_exists string int
  | Movie_not_found
  | Invalid_input_data
  | Movie_updated

datatype error =
    HTTPException nat detail
  | RequestValidationError
  | ResponseValidationError
  | ValidationError
  | MultipleResultsFound
  | SQLAlchemyError string

text \<open>The status line a client sees: an unhandled exception is a 500.\<close>

fun status_code :: "error \<Rightarrow> nat" where
  "status_code (HTTPException c d) = c"
| "status_code RequestValidationError = 422"
| "status_code e = 500"

subsection \<open>Mapped objects and the store\<close>

text \<open>
  Modelled from the spec: \<^verbatim>\<open>database.models\<close> (MovieModel, CountryModel, GenreModel,
  ActorModel, LanguageModel and the three association tables) is not among the source
  files. The attributes are the ones the handlers read and write and the spec's data
  model lists; \<open>id'\<close> is the primary key \<^verbatim>\<open>id\<close>.
\<close>

record MovieModel =
  id' :: int
  name :: "string option"
  date :: "int option"
  score :: "real option"
  overview :: "string option"
  status :: "string option"
  budget :: "real option"
  revenue :: "real option"
  country_id :: int

record CountryModel =
  id' :: int
  code :: string
  name :: "string option"

text \<open>GenreModel, ActorModel and LanguageModel have the same shape: a key and a name.\<close>

record NamedModel =
  id' :: int
  name :: string

type_synonym GenreModel = NamedModel
type_synonym ActorModel = NamedModel
type_synonym LanguageModel = NamedModel

text \<open>
  The store: one list of rows per entity table, in insertion order, and one set of rows
  per association table: an association row is the pair (movie id, related id), it is
  in the table or not, and the table has no order. Keys are Python integers.
\<close>

record Database =
  movies :: "MovieModel list"
  countries :: "CountryModel list"
  genres :: "GenreModel list"
  actors :: "ActorModel list"
  languages :: "LanguageModel list"
  movies_genres :: "(int \<times> int) set"
  actors_movies :: "(int \<times> int) set"
  movies_languages :: "(int \<times> int) set"

text \<open>
  Modelled from the spec: the key the store assigns to a new row (``system-assigned''):
  one more than the largest key of the table, as an autoincrement column does.
\<close>

definition next_id :: "int list \<Rightarrow> int" where
  "next_id ks = fold max ks 0 + 1"

text \<open>\<^verbatim>\<open>Result.scalar_one_or_none()\<close>: no row, the one row, or MultipleResultsFound.\<close>

fun scalar_one_or_none :: "'a list \<Rightarrow> error + 'a option" where
  "scalar_one_or_none [] = Inr None"
| "scalar_one_or_none [x] = Inr (Some x)"
| "scalar_one_or_none (x # y # zs) = Inl MultipleResultsFound"

text \<open>\<^verbatim>\<open>Result.scalars().first()\<close>: the first row or \<^verbatim>\<open>None\<close>.\<close>

fun first :: "'a list \<Rightarrow> 'a option" where
  "first [] = None"
| "first (x # xs) = Some x"

subsection \<open>Schemas\<close>

record MovieBaseSchema =
  name :: string
  date :: int
  score :: real
  overview :: string

record MovieResponseSchema = MovieBaseSchema +
  id' :: int

record MoviesPage =
  movies :: "MovieResponseSchema list"
  prev_page :: "string option"
  next_page :: "string option"
  total_pages :: nat
  total_items :: nat

record MovieCreateSchema = MovieBaseSchema +
  status :: string
  budget :: real
  revenue :: real
  country :: string
  genres :: "string list"
  actors :: "string list"
  languages :: "string list"

record CountryResponse =
  id' :: int
  code :: string
  name :: "string option"

record GenreResponse =
  id' :: int
  name :: string

type_synonym ActorResponse = GenreResponse
type_synonym LanguageResponse = GenreResponse

text \<open>
  The three collections of MovieDetailResponseSchema are lists whose order is the one
  in which the store returns the joined rows; the query of \<^verbatim>\<open>get_movie\<close> has no
  \<^verbatim>\<open>order_by\<close>, so the order is not the program's: such a list is a \<open>multiset\<close>.
\<close>

record MovieDetailResponseSchema = MovieResponseSchema +
  status :: string
  budget :: real
  revenue :: real
  country :: CountryResponse
  genres :: "GenreResponse multiset"
  actors :: "ActorResponse multiset"
  languages :: "LanguageResponse multiset"

text \<open>
  The constraints of MovieBaseSchema: \<^verbatim>\<open>Field(max_length=255)\<close> on the name,
  \<^verbatim>\<open>Field(ge=0, le=100)\<close> on the score and the validator \<^verbatim>\<open>date_not_too_far\<close>, which
  raises when \<^verbatim>\<open>value > date.today() + timedelta(days=365)\<close>.
\<close>

definition date_not_too_far :: "int \<Rightarrow> int \<Rightarrow> bool" where
  "date_not_too_far today v \<longleftrightarrow> \<not> (v > today + 365)"

definition MovieBaseSchema_ok :: "int \<Rightarrow> string \<Rightarrow> int \<Rightarrow> real \<Rightarrow> bool" where
  "MovieBaseSchema_ok today n d s \<longleftrightarrow>
     length n \<le> 255 \<and> date_not_too_far today d \<and> 0 \<le> s \<and> s \<le> 100"

text \<open>
  Validation of a mapped movie against MovieResponseSchema (\<^verbatim>\<open>from_attributes=True\<close>):
  the four base attributes must be there and satisfy the base constraints.
\<close>

definition MovieResponseSchema_validate :: "int \<Rightarrow> MovieModel \<Rightarrow> MovieResponseSchema option" where
  "MovieResponseSchema_validate today m =
     (case (MovieModel.name m, MovieModel.date m, MovieModel.score m, MovieModel.overview m) of
        (Some n, Some d, Some s, Some ov) \<Rightarrow>
          if MovieBaseSchema_ok today n d s
          then Some \<lparr>MovieBaseSchema.name = n, date = d, score = s, overview = ov,
                     MovieResponseSchema.id' = MovieModel.id' m\<rparr>
          else None
      | _ \<Rightarrow> None)"

section \<open>Listing\<close>

text \<open>
  The pagination collaborator (\<^verbatim>\<open>fastapi_pagination\<close>): \<^verbatim>\<open>apaginate\<close> runs the ordered
  query with \<^verbatim>\<open>LIMIT size OFFSET (page - 1) * size\<close>, counts the rows, and reports the
  number of pages, the ceiling of \<^verbatim>\<open>total / size\<close>.
\<close>

record Page =
  items :: "MovieModel list"
  total :: nat
  page :: int
  size' :: int
  pages :: nat

definition apaginate :: "MovieModel list \<Rightarrow> int \<Rightarrow> int \<Rightarrow> Page" where
  "apaginate rows p sz =
     \<lparr>items = take (nat sz) (drop (nat ((p - 1) * sz)) rows),
      total = length rows,
      page = p,
      size' = sz,
      pages = (if sz \<le> 0 then 0 else (length rows + nat sz - 1) div nat sz)\<rparr>"

text \<open>\<^verbatim>\<open>select(MovieModel).order_by(MovieModel.id.desc())\<close>\<close>

definition order_by_id_desc :: "MovieModel list \<Rightarrow> MovieModel list" where
  "order_by_id_desc ms = rev (sort_key MovieModel.id' ms)"

text \<open>\<^verbatim>\<open>str\<close> of an integer, as the f-strings of the page links format it.\<close>

function str_nat :: "nat \<Rightarrow> string" where
  "str_nat n = (if n < 10 then [''0123456789'' ! n]
                else str_nat (n div 10) @ [''0123456789'' ! (n mod 10)])"
  by pat_completeness auto
termination
  by (relation "measure (\<lambda>n. n)") auto

declare str_nat.simps [simp del]

definition str_int :: "int \<Rightarrow> string" where
  "str_int i = (if i < 0 then ''-'' @ str_nat (nat (- i)) else str_nat (nat i))"

text \<open>The dictionary that \<^verbatim>\<open>get_movies\<close> returns, before the response model reads it.\<close>

record movies_dict =
  movies :: "MovieModel list"
  prev_page :: "string option"
  next_page :: "string option"
  total_pages :: nat
  total_items :: nat

definition get_movies :: "Database \<Rightarrow> int \<Rightarrow> int \<Rightarrow> error + movies_dict" where
  "get_movies db page_no per_page =
     (let pg = apaginate (order_by_id_desc (Database.movies db)) page_no per_page in
      if total pg = 0 \<or> items pg = [] then Inl (HTTPException 404 No_movies_found)
      else Inr
        \<lparr>movies_dict.movies = items pg,
         prev_page =
           (if page pg > 1
            then Some (''/theater/movies/?page='' @ str_int (page pg - 1)
                       @ ''&per_page='' @ str_int (size' pg))
            else None),
         next_page =
           (if page pg < int (pages pg)
            then Some (''/theater/movies/?page='' @ str_int (page pg + 1)
                       @ ''&per_page='' @ str_int (size' pg))
            else None),
         total_pages = pages pg,
         total_items = total pg\<rparr>)"

text \<open>
  The route \<^verbatim>\<open>GET /movies/\<close>: the \<^verbatim>\<open>Query\<close> bounds (\<^verbatim>\<open>page >= 1\<close>,
  \<^verbatim>\<open>1 <= per_page <= 20\<close>) are checked before the handler runs, and the returned
  dictionary is validated against \<^verbatim>\<open>response_model=MoviesPage\<close>, every item against
  MovieResponseSchema.
\<close>

definition MoviesPage_validate :: "int \<Rightarrow> movies_dict \<Rightarrow> MoviesPage option" where
  "MoviesPage_validate today d =
     (case those (map (MovieResponseSchema_validate today) (movies_dict.movies d)) of
        None \<Rightarrow> None
      | Some ms \<Rightarrow>
          Some \<lparr>MoviesPage.movies = ms,
                prev_page = movies_dict.prev_page d,
                next_page = movies_dict.next_page d,
                total_pages = movies_dict.total_pages d,
                total_items = movies_dict.total_items d\<rparr>)"

definition route_get_movies :: "int \<Rightarrow> Database \<Rightarrow> int \<Rightarrow> int \<Rightarrow> error + MoviesPage" where
  "route_get_movies today db page_no per_page =
     (if \<not> (page_no \<ge> 1 \<and> per_page \<ge> 1 \<and> per_page \<le> 20) then Inl RequestValidationError
      else case get_movies db page_no per_page of
             Inl e \<Rightarrow> Inl e
           | Inr d \<Rightarrow>
               (case MoviesPage_validate today d of
                  None \<Rightarrow> Inl ResponseValidationError
                | Some r \<Rightarrow> Inr r))"

section \<open>Creating\<close>

text \<open>
  The constraints of MovieCreateSchema on a body whose values have the declared types:
  those of MovieBaseSchema, membership of the status in the enum, \<^verbatim>\<open>Field(ge=0)\<close> on
  budget and revenue and \<^verbatim>\<open>Field(max_length=3)\<close> on the country code.
\<close>

definition MovieCreateSchema_ok :: "int \<Rightarrow> string list \<Rightarrow> MovieCreateSchema \<Rightarrow> bool" where
  "MovieCreateSchema_ok today statuses movie \<longleftrightarrow>
     MovieBaseSchema_ok today (MovieBaseSchema.name movie) (MovieBaseSchema.date movie)
       (MovieBaseSchema.score movie)
     \<and> MovieCreateSchema.status movie \<in> set statuses
     \<and> 0 \<le> MovieCreateSchema.budget movie
     \<and> 0 \<le> MovieCreateSchema.revenue movie
     \<and> length (MovieCreateSchema.country movie) \<le> 3"

text \<open>
  Each of the three loops of \<^verbatim>\<open>create_movie\<close> over \<^verbatim>\<open>movie.genres\<close>, \<^verbatim>\<open>movie.actors\<close>
  and \<^verbatim>\<open>movie.languages\<close>: look the name up; when no row has it, add a row and flush,
  which assigns its key and makes it visible to the next lookup; collect the objects in
  the order of the names. The result is the collected objects and the table.
\<close>

fun get_or_create :: "NamedModel list \<Rightarrow> string list \<Rightarrow> error + (NamedModel list \<times> NamedModel list)" where
  "get_or_create tbl [] = Inr ([], tbl)"
| "get_or_create tbl (n # ns) =
     (case scalar_one_or_none [g \<leftarrow> tbl. NamedModel.name g = n] of
        Inl e \<Rightarrow> Inl e
      | Inr found \<Rightarrow>
          (let obj = (case found of
                        Some g \<Rightarrow> g
                      | None \<Rightarrow> \<lparr>NamedModel.id' = next_id (map NamedModel.id' tbl),
                                 name = n\<rparr>);
               tbl' = (case found of Some g \<Rightarrow> tbl | None \<Rightarrow> tbl @ [obj])
           in case get_or_create tbl' ns of
                Inl e \<Rightarrow> Inl e
              | Inr (objs, tbl'') \<Rightarrow> Inr (obj # objs, tbl'')))"

text \<open>
  \<^verbatim>\<open>create_movie\<close>. The result pairs what the handler returns or raises with the
  committed store: an exception before \<^verbatim>\<open>db.commit()\<close> leaves the store as it was,
  flushed rows included. The association rows of the new movie are written with it:
  one row for each object of a collection, so that an object collected twice (a name
  repeated in the body) is linked once.
\<close>

definition create_movie :: "Database \<Rightarrow> MovieCreateSchema \<Rightarrow> (error + MovieModel) \<times> Database" where
  "create_movie db movie =
     (case scalar_one_or_none
             [m \<leftarrow> Database.movies db.
                MovieModel.name m = Some (MovieBaseSchema.name movie)
                \<and> MovieModel.date m = Some (MovieBaseSchema.date movie)] of
        Inl e \<Rightarrow> (Inl e, db)
      | Inr (Some existing_movie) \<Rightarrow>
          (Inl (HTTPException 409
                 (Already_exists (MovieBaseSchema.name movie) (MovieBaseSchema.date movie))), db)
      | Inr None \<Rightarrow>
     (case scalar_one_or_none
             [c \<leftarrow> countries db. CountryModel.code c = MovieCreateSchema.country movie] of
        Inl e \<Rightarrow> (Inl e, db)
      | Inr found \<Rightarrow>
     (let country_obj =
            (case found of
               Some c \<Rightarrow> c
             | None \<Rightarrow> \<lparr>CountryModel.id' = next_id (map CountryModel.id' (countries db)),
                        code = MovieCreateSchema.country movie,
                        name = None\<rparr>);
          countries' = (case found of Some c \<Rightarrow> countries db | None \<Rightarrow> countries db @ [country_obj])
      in
     (case get_or_create (Database.genres db) (MovieCreateSchema.genres movie) of
        Inl e \<Rightarrow> (Inl e, db)
      | Inr (genre_objs, genres') \<Rightarrow>
     (case get_or_create (Database.actors db) (MovieCreateSchema.actors movie) of
        Inl e \<Rightarrow> (Inl e, db)
      | Inr (actor_objs, actors') \<Rightarrow>
     (case get_or_create (Database.languages db) (MovieCreateSchema.languages movie) of
        Inl e \<Rightarrow> (Inl e, db)
      | Inr (language_objs, languages') \<Rightarrow>
     (let new_movie =
            \<lparr>MovieModel.id' = next_id (map MovieModel.id' (Database.movies db)),
             name = Some (MovieBaseSchema.name movie),
             date = Some (MovieBaseSchema.date movie),
             score = Some (MovieBaseSchema.score movie),
             overview = Some (MovieBaseSchema.overview movie),
             status = Some (MovieCreateSchema.status movie),
             budget = Some (MovieCreateSchema.budget movie),
             revenue = Some (MovieCreateSchema.revenue movie),
             country_id = CountryModel.id' country_obj\<rparr>
      in (Inr new_movie,
          \<lparr>Database.movies = Database.movies db @ [new_movie],
           countries = countries',
           genres = genres',
           actors = actors',
           languages = languages',
           movies_genres = movies_genres db
             \<union> (\<lambda>g. (MovieModel.id' new_movie, NamedModel.id' g)) ` set genre_objs,
           actors_movies = actors_movies db
             \<union> (\<lambda>a. (MovieModel.id' new_movie, NamedModel.id' a)) ` set actor_objs,
           movies_languages = movies_languages db
             \<union> (\<lambda>l. (MovieModel.id' new_movie, NamedModel.id' l)) ` set language_objs\<rparr>))))))))"

text \<open>
  The route \<^verbatim>\<open>POST /movies/\<close>: the body is validated against MovieCreateSchema before
  the handler runs (a failure is the framework's 422), and the returned object is read
  through \<^verbatim>\<open>response_model=MovieResponseSchema\<close>; a success answers with
  \<^verbatim>\<open>status_code=201\<close>.
\<close>

definition route_create_movie ::
  "int \<Rightarrow> string list \<Rightarrow> Database \<Rightarrow> MovieCreateSchema
   \<Rightarrow> (error + nat \<times> MovieResponseSchema) \<times> Database" where
  "route_create_movie today statuses db body =
     (if \<not> MovieCreateSchema_ok today statuses body then (Inl RequestValidationError, db)
      else case create_movie db body of
             (Inl e, db') \<Rightarrow> (Inl e, db')
           | (Inr new_movie, db') \<Rightarrow>
               (case MovieResponseSchema_validate today new_movie of
                  None \<Rightarrow> (Inl ResponseValidationError, db')
                | Some r \<Rightarrow> (Inr (201, r), db')))"

section \<open>Reading one movie\<close>

text \<open>
  The relationships that \<^verbatim>\<open>joinedload\<close> fetches: the country whose key is the movie's
  \<^verbatim>\<open>country_id\<close>, and through an association table the rows it links to the movie,
  each linked row once, in no order of the program's.
\<close>

definition load_country :: "Database \<Rightarrow> MovieModel \<Rightarrow> CountryModel option" where
  "load_country db m = first [c \<leftarrow> countries db. CountryModel.id' c = country_id m]"

definition load_related :: "(int \<times> int) set \<Rightarrow> NamedModel list \<Rightarrow> MovieModel \<Rightarrow> NamedModel multiset" where
  "load_related assoc tbl m =
     mset [g \<leftarrow> tbl. (MovieModel.id' m, NamedModel.id' g) \<in> assoc]"

definition CountryResponse_of :: "CountryModel \<Rightarrow> CountryResponse" where
  "CountryResponse_of c =
     \<lparr>CountryResponse.id' = CountryModel.id' c,
      code = CountryModel.code c,
      name = CountryModel.name c\<rparr>"

definition GenreResponse_of :: "NamedModel \<Rightarrow> GenreResponse" where
  "GenreResponse_of g = \<lparr>GenreResponse.id' = NamedModel.id' g, name = NamedModel.name g\<rparr>"

text \<open>
  \<^verbatim>\<open>MovieDetailResponseSchema.model_validate(movie)\<close>: the base constraints again, a
  status of the enum, budget, revenue and country present.
\<close>

definition MovieDetailResponseSchema_validate ::
  "int \<Rightarrow> string list \<Rightarrow> Database \<Rightarrow> MovieModel \<Rightarrow> MovieDetailResponseSchema option" where
  "MovieDetailResponseSchema_validate today statuses db m =
     (case (MovieResponseSchema_validate today m, MovieModel.status m, MovieModel.budget m,
            MovieModel.revenue m, load_country db m) of
        (Some r, Some st, Some b, Some rv, Some c) \<Rightarrow>
          if st \<in> set statuses
          then Some \<lparr>MovieBaseSchema.name = MovieBaseSchema.name r,
                     date = MovieBaseSchema.date r,
                     score = MovieBaseSchema.score r,
                     overview = MovieBaseSchema.overview r,
                     MovieResponseSchema.id' = MovieResponseSchema.id' r,
                     MovieDetailResponseSchema.status = st,
                     budget = b,
                     revenue = rv,
                     country = CountryResponse_of c,
                     genres = image_mset GenreResponse_of
                                (load_related (movies_genres db) (Database.genres db) m),
                     actors = image_mset GenreResponse_of
                                (load_related (actors_movies db) (Database.actors db) m),
                     languages = image_mset GenreResponse_of
                                (load_related (movies_languages db) (Database.languages db) m)\<rparr>
          else None
      | _ \<Rightarrow> None)"

definition get_movie ::
  "int \<Rightarrow> string list \<Rightarrow> Database \<Rightarrow> int \<Rightarrow> error + MovieDetailResponseSchema" where
  "get_movie today statuses db movie_id =
     (case first [m \<leftarrow> Database.movies db. MovieModel.id' m = movie_id] of
        None \<Rightarrow> Inl (HTTPException 404 Movie_not_found)
      | Some movie \<Rightarrow>
          (case MovieDetailResponseSchema_validate today statuses db movie of
             None \<Rightarrow> Inl ValidationError
           | Some r \<Rightarrow> Inr r))"

section \<open>Deleting\<close>

text \<open>
  \<^verbatim>\<open>delete_movie\<close>. \<^verbatim>\<open>db.delete(movie)\<close> removes the row with the movie's key and,
  modelled from the spec (the relationships are declared in \<^verbatim>\<open>database.models\<close>), the
  association rows of that movie; no other table is written.
\<close>

definition delete_movie :: "Database \<Rightarrow> int \<Rightarrow> (error + unit) \<times> Database" where
  "delete_movie db movie_id =
     (case scalar_one_or_none [m \<leftarrow> Database.movies db. MovieModel.id' m = movie_id] of
        Inl e \<Rightarrow> (Inl e, db)
      | Inr None \<Rightarrow> (Inl (HTTPException 404 Movie_not_found), db)
      | Inr (Some movie) \<Rightarrow>
          (Inr (),
           db\<lparr>Database.movies :=
                 [m \<leftarrow> Database.movies db. MovieModel.id' m \<noteq> MovieModel.id' movie],
               movies_genres := {r \<in> movies_genres db. fst r \<noteq> MovieModel.id' movie},
               actors_movies := {r \<in> actors_movies db. fst r \<noteq> MovieModel.id' movie},
               movies_languages :=
                 {r \<in> movies_languages db. fst r \<noteq> MovieModel.id' movie}\<rparr>))"

section \<open>Updating\<close>

text \<open>
  A field of a partial body is either absent from it or given, and a given field holds
  \<^verbatim>\<open>None\<close> (an explicit null) or a value: \<open>'a option given\<close>. The fields of
  MovieUpdateSchema that are \<open>Given\<close> are those of \<^verbatim>\<open>model_fields_set\<close>.
\<close>

datatype 'a given = Unset | Given 'a

record MovieUpdateSchema =
  name :: "string option given"
  date :: "int option given"
  score :: "real option given"
  overview :: "string option given"
  status :: "string option given"
  budget :: "real option given"
  revenue :: "real option given"

text \<open>
  The JSON body of a \<^verbatim>\<open>PATCH\<close>: the seven declared keys, each absent, null or a value
  of the declared type, and under \<open>extra\<close> every other key of the object with its value.
\<close>

datatype json =
    JNull
  | JBool bool
  | JNumber real
  | JString string
  | JArray "json list"
  | JObject "(string \<times> json) list"

record update_body = MovieUpdateSchema +
  extra :: "(string \<times> json) list"

text \<open>
  The constraints that MovieUpdateSchema declares: \<^verbatim>\<open>Field(None, ge=0, le=100)\<close> on the
  score, \<^verbatim>\<open>Field(None, ge=0)\<close> on budget and revenue, and a status of the enum. A null
  passes every one of them (the fields are \<^verbatim>\<open>Optional\<close>); name and overview carry no
  constraint, and the class has no \<^verbatim>\<open>model_config\<close>, so keys it does not declare are
  ignored.

  The line \<^verbatim>\<open>date: Optional[date] = None\<close> of the class body first binds the class
  attribute \<^verbatim>\<open>date\<close> to \<^verbatim>\<open>None\<close> and then evaluates its annotation, in which
  \<^verbatim>\<open>date\<close> is by now that \<^verbatim>\<open>None\<close> and no longer \<^verbatim>\<open>datetime.date\<close>: the type of the
  field is \<^verbatim>\<open>Optional[None]\<close>, that is \<^verbatim>\<open>NoneType\<close>. A null passes; every date is
  refused.
\<close>

definition given_ok :: "('a \<Rightarrow> bool) \<Rightarrow> 'a option given \<Rightarrow> bool" where
  "given_ok P f = (case f of Given (Some v) \<Rightarrow> P v | _ \<Rightarrow> True)"

definition MovieUpdateSchema_validate :: "string list \<Rightarrow> update_body \<Rightarrow> error + MovieUpdateSchema" where
  "MovieUpdateSchema_validate statuses body =
     (if given_ok (\<lambda>v. False) (MovieUpdateSchema.date body)
         \<and> given_ok (\<lambda>v. 0 \<le> v \<and> v \<le> 100) (MovieUpdateSchema.score body)
         \<and> given_ok (\<lambda>v. v \<in> set statuses) (MovieUpdateSchema.status body)
         \<and> given_ok (\<lambda>v. 0 \<le> v) (MovieUpdateSchema.budget body)
         \<and> given_ok (\<lambda>v. 0 \<le> v) (MovieUpdateSchema.revenue body)
      then Inr \<lparr>MovieUpdateSchema.name = MovieUpdateSchema.name body,
                date = MovieUpdateSchema.date body,
                score = MovieUpdateSchema.score body,
                overview = MovieUpdateSchema.overview body,
                status = MovieUpdateSchema.status body,
                budget = MovieUpdateSchema.budget body,
                revenue = MovieUpdateSchema.revenue body\<rparr>
      else Inl RequestValidationError)"

text \<open>
  \<^verbatim>\<open>update_data.model_dump(exclude_unset=True).items()\<close>: one item per given field, in the
  order of the class, the key and the value together.
\<close>

datatype item =
    Name "string option"
  | Date "int option"
  | Score "real option"
  | Overview "string option"
  | Status "string option"
  | Budget "real option"
  | Revenue "real option"

definition dump_field :: "('a \<Rightarrow> item) \<Rightarrow> 'a given \<Rightarrow> item list" where
  "dump_field k f = (case f of Unset \<Rightarrow> [] | Given v \<Rightarrow> [k v])"

definition model_dump_exclude_unset :: "MovieUpdateSchema \<Rightarrow> item list" where
  "model_dump_exclude_unset u =
     dump_field Name (MovieUpdateSchema.name u)
     @ dump_field Date (MovieUpdateSchema.date u)
     @ dump_field Score (MovieUpdateSchema.score u)
     @ dump_field Overview (MovieUpdateSchema.overview u)
     @ dump_field Status (MovieUpdateSchema.status u)
     @ dump_field Budget (MovieUpdateSchema.budget u)
     @ dump_field Revenue (MovieUpdateSchema.revenue u)"

text \<open>\<^verbatim>\<open>setattr(movie, field, value)\<close>\<close>

fun setattr :: "MovieModel \<Rightarrow> item \<Rightarrow> MovieModel" where
  "setattr movie (Name v) = movie\<lparr>MovieModel.name := v\<rparr>"
| "setattr movie (Date v) = movie\<lparr>MovieModel.date := v\<rparr>"
| "setattr movie (Score v) = movie\<lparr>MovieModel.score := v\<rparr>"
| "setattr movie (Overview v) = movie\<lparr>MovieModel.overview := v\<rparr>"
| "setattr movie (Status v) = movie\<lparr>MovieModel.status := v\<rparr>"
| "setattr movie (Budget v) = movie\<lparr>MovieModel.budget := v\<rparr>"
| "setattr movie (Revenue v) = movie\<lparr>MovieModel.revenue := v\<rparr>"

text \<open>
  \<^verbatim>\<open>db.commit()\<close> of a changed movie. What the store refuses (a null in a required
  column, a broken uniqueness constraint, ...) is decided by the column declarations of
  \<^verbatim>\<open>database.models\<close>, which are not among the source files: it is the parameter
  \<open>store\<close>, giving the exception the store raises for this movie in this state, if any.
  An accepted movie replaces the row with its key.
\<close>

definition commit :: "(Database \<Rightarrow> MovieModel \<Rightarrow> error option) \<Rightarrow> Database \<Rightarrow> MovieModel \<Rightarrow> error + Database" where
  "commit store db movie =
     (case store db movie of
        Some e \<Rightarrow> Inl e
      | None \<Rightarrow>
          Inr (db\<lparr>Database.movies :=
                    map (\<lambda>m. if MovieModel.id' m = MovieModel.id' movie then movie else m)
                        (Database.movies db)\<rparr>))"

text \<open>
  \<^verbatim>\<open>update_movie\<close>: the \<^verbatim>\<open>try\<close> block assigns the dumped items and commits; any
  exception there is caught, the session rolled back and a 400 raised. The
  \<^verbatim>\<open>db.refresh(movie)\<close> after a commit that succeeded reads the committed row back and
  changes nothing.
\<close>

definition update_movie ::
  "(Database \<Rightarrow> MovieModel \<Rightarrow> error option) \<Rightarrow> Database \<Rightarrow> int \<Rightarrow> MovieUpdateSchema
   \<Rightarrow> (error + detail) \<times> Database" where
  "update_movie store db movie_id update_data =
     (case scalar_one_or_none [m \<leftarrow> Database.movies db. MovieModel.id' m = movie_id] of
        Inl e \<Rightarrow> (Inl e, db)
      | Inr None \<Rightarrow> (Inl (HTTPException 404 Movie_not_found), db)
      | Inr (Some movie) \<Rightarrow>
          (case commit store db (fold (\<lambda>it m. setattr m it)
                                      (model_dump_exclude_unset update_data) movie) of
             Inl e \<Rightarrow> (Inl (HTTPException 400 Invalid_input_data), db)
           | Inr db' \<Rightarrow> (Inr Movie_updated, db')))"

text \<open>
  The route \<^verbatim>\<open>PATCH /movies/{movie_id}/\<close>: the body is validated against
  MovieUpdateSchema before the handler runs; a success answers with \<^verbatim>\<open>status_code=200\<close>.
\<close>

definition route_update_movie ::
  "string list \<Rightarrow> (Database \<Rightarrow> MovieModel \<Rightarrow> error option) \<Rightarrow> Database \<Rightarrow> int \<Rightarrow> update_body
   \<Rightarrow> (error + nat \<times> detail) \<times> Database" where
  "route_update_movie statuses store db movie_id body =
     (case MovieUpdateSchema_validate statuses body of
        Inl e \<Rightarrow> (Inl e, db)
      | Inr update_data \<Rightarrow>
          (case update_movie store db movie_id update_data of
             (Inl e, db') \<Rightarrow> (Inl e, db')
           | (Inr d, db') \<Rightarrow> (Inr (200, d), db')))"

section \<open>Consistency of the store\<close>

text \<open>
  Modelled from the spec: the constraints that the data model puts on a stored catalog
  and that \<^verbatim>\<open>database.models\<close>, outside the source files, would declare: keys are
  unique in their table, no two movies share name and date, a country code and the name
  of a genre, an actor or a language are unique, and an association row belongs to a
  stored movie.
\<close>

definition consistent :: "Database \<Rightarrow> bool" where
  "consistent db \<longleftrightarrow>
     distinct (map MovieModel.id' (Database.movies db))
     \<and> distinct (map (\<lambda>m. (MovieModel.name m, MovieModel.date m)) (Database.movies db))
     \<and> distinct (map CountryModel.id' (countries db))
     \<and> distinct (map CountryModel.code (countries db))
     \<and> distinct (map NamedModel.id' (Database.genres db))
     \<and> distinct (map NamedModel.name (Database.genres db))
     \<and> distinct (map NamedModel.id' (Database.actors db))
     \<and> distinct (map NamedModel.name (Database.actors db))
     \<and> distinct (map NamedModel.id' (Database.languages db))
     \<and> distinct (map NamedModel.name (Database.languages db))
     \<and> (\<forall>r \<in> movies_genres db. fst r \<in> MovieModel.id' ` set (Database.movies db))
     \<and> (\<forall>r \<in> actors_movies db. fst r \<in> MovieModel.id' ` set (Database.movies db))
     \<and> (\<forall>r \<in> movies_languages db. fst r \<in> MovieModel.id' ` set (Database.movies db))"

section \<open>Example data\<close>

text \<open>
  The status values, the creation body of the spec's example, the store it leaves
  behind when the catalog was empty, and two partial bodies.
\<close>

definition example_statuses :: "string list" where
  "example_statuses = [''Released'', ''Upcoming'', ''In Production'']"

definition dune :: MovieCreateSchema where
  "dune = \<lparr>MovieBaseSchema.name = ''Dune'', date = 738085, score = 83, overview = ''...'',
           MovieCreateSchema.status = ''Released'', budget = 165000000, revenue = 402000000,
           country = ''USA'', genres = [''Sci-Fi''],
           actors = [''Timoth'' @ CHR 0xE9 # ''e Chalamet''], languages = [''English'']\<rparr>"

definition empty_db :: Database where
  "empty_db = \<lparr>Database.movies = [], countries = [], genres = [], actors = [], languages = [],
               movies_genres = {}, actors_movies = {}, movies_languages = {}\<rparr>"

definition dune_row :: MovieModel where
  "dune_row = \<lparr>MovieModel.id' = 1, name = Some ''Dune'', date = Some 738085, score = Some 83,
               overview = Some ''...'', status = Some ''Released'', budget = Some 165000000,
               revenue = Some 402000000, country_id = 1\<rparr>"

definition dune_db :: Database where
  "dune_db = \<lparr>Database.movies = [dune_row],
              countries = [\<lparr>CountryModel.id' = 1, code = ''USA'', name = None\<rparr>],
              genres = [\<lparr>NamedModel.id' = 1, name = ''Sci-Fi''\<rparr>],
              actors = [\<lparr>NamedModel.id' = 1, name = ''Timoth'' @ CHR 0xE9 # ''e Chalamet''\<rparr>],
              languages = [\<lparr>NamedModel.id' = 1, name = ''English''\<rparr>],
              movies_genres = {(1, 1)}, actors_movies = {(1, 1)}, movies_languages = {(1, 1)}\<rparr>"

definition score_42 :: MovieUpdateSchema where
  "score_42 = \<lparr>MovieUpdateSchema.name = Unset, date = Unset, score = Given (Some 42),
               overview = Unset, status = Unset, budget = Unset, revenue = Unset\<rparr>"

definition name_null :: MovieUpdateSchema where
  "name_null = \<lparr>MovieUpdateSchema.name = Given None, date = Unset, score = Given (Some 42),
                overview = Unset, status = Unset, budget = Unset, revenue = Unset\<rparr>"

text \<open>A store that accepts every movie, and one whose name column is required.\<close>

definition accept_all :: "Database \<Rightarrow> MovieModel \<Rightarrow> error option" where
  "accept_all db m = None"

definition required_columns :: "Database \<Rightarrow> MovieModel \<Rightarrow> error option" where
  "required_columns db m =
     (if MovieModel.name m = None
      then Some (SQLAlchemyError ''NOT NULL constraint failed: movies.name'')
      else None)"

text \<open>
  Bodies of a \<^verbatim>\<open>PATCH\<close>: the release date 2020-01-01 (ordinal 737425), a name of 256
  characters, and a score together with relationship keys and a key.
\<close>

definition past_date_body :: update_body where
  "past_date_body = \<lparr>MovieUpdateSchema.name = Unset, date = Given (Some 737425), score = Unset,
                overview = Unset, status = Unset, budget = Unset, revenue = Unset, extra = []\<rparr>"

definition long_name_body :: update_body where
  "long_name_body = \<lparr>MovieUpdateSchema.name = Given (Some (replicate 256 CHR ''a'')), date = Unset, score = Unset,
                overview = Unset, status = Unset, budget = Unset, revenue = Unset, extra = []\<rparr>"

definition relationships_body :: update_body where
  "relationships_body = \<lparr>MovieUpdateSchema.name = Unset, date = Unset, score = Given (Some 42),
                overview = Unset, status = Unset, budget = Unset, revenue = Unset,
                extra = [(''country'', JString ''FR''),
                         (''genres'', JArray [JString ''Drama'']),
                         (''actors'', JArray []),
                         (''languages'', JArray [JString ''French'']),
                         (''id'', JNumber 7)]\<rparr>"

text \<open>A catalog of three movies that share their lookup rows.\<close>

definition part_two_row :: MovieModel where
  "part_two_row = dune_row\<lparr>MovieModel.id' := 2, MovieModel.name := Some ''Dune: Part Two'',
                          MovieModel.date := Some 738946\<rparr>"

definition part_three_row :: MovieModel where
  "part_three_row = dune_row\<lparr>MovieModel.id' := 3, MovieModel.name := Some ''Dune: Part Three'',
                            MovieModel.date := Some 739968,
                            MovieModel.status := Some ''Upcoming''\<rparr>"

definition trilogy_db :: Database where
  "trilogy_db = dune_db\<lparr>Database.movies := [dune_row, part_two_row, part_three_row],
                        movies_genres := {(1, 1), (2, 1), (3, 1)},
                        actors_movies := {(1, 1), (2, 1), (3, 1)},
                        movies_languages := {(1, 1), (2, 1), (3, 1)}\<rparr>"

text \<open>The creation body of a second movie of the same country.\<close>

definition dune_part_two :: MovieCreateSchema where
  "dune_part_two = dune\<lparr>MovieBaseSchema.name := ''Dune: Part Two'', MovieBaseSchema.date := 738946\<rparr>"

text \<open>The same body with two genres, one new and named twice, one stored.\<close>

definition sequel :: MovieCreateSchema where
  "sequel = dune_part_two\<lparr>MovieCreateSchema.genres := [''Action'', ''Sci-Fi'', ''Action'']\<rparr>"

section \<open>Properties of the update\<close>

lemma filter_single_key:
  assumes "[m \<leftarrow> ms. f m = k] = [x]"
  shows "f x = k"
proof -
  have "x \<in> set [m \<leftarrow> ms. f m = k]" by (simp only: assms list.set_intros)
  then show ?thesis by simp
qed

text \<open>The loop over the dumped items, field by field.\<close>

lemma fold_setattr_dump:
  "fold (\<lambda>it m. setattr m it) (model_dump_exclude_unset u) movie =
     movie\<lparr>MovieModel.name := (case MovieUpdateSchema.name u of Unset \<Rightarrow> MovieModel.name movie | Given v \<Rightarrow> v),
           MovieModel.date := (case MovieUpdateSchema.date u of Unset \<Rightarrow> MovieModel.date movie | Given v \<Rightarrow> v),
           MovieModel.score := (case MovieUpdateSchema.score u of Unset \<Rightarrow> MovieModel.score movie | Given v \<Rightarrow> v),
           MovieModel.overview := (case MovieUpdateSchema.overview u of Unset \<Rightarrow> MovieModel.overview movie | Given v \<Rightarrow> v),
           MovieModel.status := (case MovieUpdateSchema.status u of Unset \<Rightarrow> MovieModel.status movie | Given v \<Rightarrow> v),
           MovieModel.budget := (case MovieUpdateSchema.budget u of Unset \<Rightarrow> MovieModel.budget movie | Given v \<Rightarrow> v),
           MovieModel.revenue := (case MovieUpdateSchema.revenue u of Unset \<Rightarrow> MovieModel.revenue movie | Given v \<Rightarrow> v)\<rparr>"
  by (simp add: model_dump_exclude_unset_def dump_field_def split: given.splits)

lemma update_movie_found:
  assumes found: "[m \<leftarrow> Database.movies db. MovieModel.id' m = movie_id] = [movie]"
  shows "update_movie store db movie_id u =
           (case store db (fold (\<lambda>it m. setattr m it) (model_dump_exclude_unset u) movie) of
              Some e \<Rightarrow> (Inl (HTTPException 400 Invalid_input_data), db)
            | None \<Rightarrow>
                (Inr Movie_updated,
                 db\<lparr>Database.movies :=
                      map (\<lambda>m. if MovieModel.id' m = movie_id
                                then fold (\<lambda>it m. setattr m it) (model_dump_exclude_unset u) movie
                                else m)
                          (Database.movies db)\<rparr>))"
proof -
  have "MovieModel.id' movie = movie_id"
    using found by (rule filter_single_key)
  then have "MovieModel.id' (fold (\<lambda>it m. setattr m it) (model_dump_exclude_unset u) movie) = movie_id"
    by (simp add: fold_setattr_dump)
  then show ?thesis
    using found by (simp add: update_movie_def commit_def split: option.splits)
qed

text \<open>
  C1. When the movie with the given key is stored (once: the key is primary) and the
  store accepts the result, \<^verbatim>\<open>update_movie\<close> answers ``Movie updated successfully.'' and
  the committed store differs from the old one in that movie's row only; there, every
  scalar field given in the payload holds the payload's value, every field absent from
  it holds its old value, and the key and the country reference are the old ones. The
  rows of the other movies, the lookup tables and the association tables are the old
  ones. For the payload \<^verbatim>\<open>{score: 42}\<close> only the score changes.
\<close>

theorem update_movie_assigns:
  fixes movie :: MovieModel and u :: MovieUpdateSchema
  defines "movie' \<equiv>
     movie\<lparr>MovieModel.name := (case MovieUpdateSchema.name u of Unset \<Rightarrow> MovieModel.name movie | Given v \<Rightarrow> v),
           MovieModel.date := (case MovieUpdateSchema.date u of Unset \<Rightarrow> MovieModel.date movie | Given v \<Rightarrow> v),
           MovieModel.score := (case MovieUpdateSchema.score u of Unset \<Rightarrow> MovieModel.score movie | Given v \<Rightarrow> v),
           MovieModel.overview := (case MovieUpdateSchema.overview u of Unset \<Rightarrow> MovieModel.overview movie | Given v \<Rightarrow> v),
           MovieModel.status := (case MovieUpdateSchema.status u of Unset \<Rightarrow> MovieModel.status movie | Given v \<Rightarrow> v),
           MovieModel.budget := (case MovieUpdateSchema.budget u of Unset \<Rightarrow> MovieModel.budget movie | Given v \<Rightarrow> v),
           MovieModel.revenue := (case MovieUpdateSchema.revenue u of Unset \<Rightarrow> MovieModel.revenue movie | Given v \<Rightarrow> v)\<rparr>"
  assumes found: "[m \<leftarrow> Database.movies db. MovieModel.id' m = movie_id] = [movie]"
      and accepted: "store db movie' = None"
  shows "update_movie store db movie_id u =
           (Inr Movie_updated,
            db\<lparr>Database.movies :=
                 map (\<lambda>m. if MovieModel.id' m = movie_id then movie' else m) (Database.movies db)\<rparr>)"
proof -
  have "fold (\<lambda>it m. setattr m it) (model_dump_exclude_unset u) movie = movie'"
    unfolding movie'_def fold_setattr_dump ..
  then show ?thesis
    using accepted by (simp add: update_movie_found [OF found])
qed

theorem update_movie_assigns_witness:
  "update_movie accept_all dune_db 1 score_42 =
     (Inr Movie_updated, dune_db\<lparr>Database.movies := [dune_row\<lparr>MovieModel.score := Some 42\<rparr>]\<rparr>)"
proof -
  have found: "[m \<leftarrow> Database.movies dune_db. MovieModel.id' m = 1] = [dune_row]"
    by (simp add: dune_db_def dune_row_def)
  show ?thesis
    using update_movie_assigns [OF found, of accept_all score_42]
    by (simp add: score_42_def dune_db_def dune_row_def accept_all_def)
qed

text \<open>
  C7. When the store raises on the commit of an update, whatever the exception, the
  handler answers with the one error 400 ``Invalid input data.'' and the committed store
  is the one before the request.
\<close>

theorem update_movie_rollback:
  assumes found: "[m \<leftarrow> Database.movies db. MovieModel.id' m = movie_id] = [movie]"
      and refused: "store db (fold (\<lambda>it m. setattr m it) (model_dump_exclude_unset update_data) movie) = Some e"
  shows "update_movie store db movie_id update_data = (Inl (HTTPException 400 Invalid_input_data), db)
         \<and> status_code (HTTPException 400 Invalid_input_data) = 400"
  using refused by (simp add: update_movie_found [OF found])

theorem update_movie_rollback_witness:
  "update_movie required_columns dune_db 1 name_null = (Inl (HTTPException 400 Invalid_input_data), dune_db)
   \<and> status_code (HTTPException 400 Invalid_input_data) = 400"
proof -
  have found: "[m \<leftarrow> Database.movies dune_db. MovieModel.id' m = 1] = [dune_row]"
    by (simp add: dune_db_def dune_row_def)
  have refused: "required_columns dune_db
      (fold (\<lambda>it m. setattr m it) (model_dump_exclude_unset name_null) dune_row) =
        Some (SQLAlchemyError ''NOT NULL constraint failed: movies.name'')"
    by (simp add: required_columns_def name_null_def model_dump_exclude_unset_def dump_field_def)
  show ?thesis
    by (rule update_movie_rollback [where store = required_columns and update_data = name_null, OF found refused])
qed

text \<open>
  C2. The update schema does not apply the constraints of creation to the date and to
  the name. It refuses the date 2020-01-01, which the creation schema accepts on
  2026-11-03 (ordinal 739923) and with which the example is created: the route answers
  with the validation error and the store is the old one. And it lets a name of 256
  characters through, which the creation schema refuses: such a name reaches the commit.
\<close>

theorem update_schema_differs_from_creation:
  "route_update_movie example_statuses accept_all dune_db 1 past_date_body =
     (Inl RequestValidationError, dune_db)
   \<and> MovieCreateSchema_ok 739923 example_statuses (dune\<lparr>MovieBaseSchema.date := 737425\<rparr>)
   \<and> fst (route_create_movie 739923 example_statuses empty_db (dune\<lparr>MovieBaseSchema.date := 737425\<rparr>)) =
     Inr (201, \<lparr>MovieBaseSchema.name = ''Dune'', date = 737425, score = 83,
                 overview = ''...'', MovieResponseSchema.id' = 1\<rparr>)
   \<and> MovieUpdateSchema_validate example_statuses long_name_body =
     Inr \<lparr>MovieUpdateSchema.name = Given (Some (replicate 256 CHR ''a'')), date = Unset,
           score = Unset, overview = Unset, status = Unset, budget = Unset, revenue = Unset\<rparr>
   \<and> \<not> MovieCreateSchema_ok 739923 example_statuses
         (dune\<lparr>MovieBaseSchema.name := replicate 256 CHR ''a''\<rparr>)
   \<and> route_create_movie 739923 example_statuses empty_db
         (dune\<lparr>MovieBaseSchema.name := replicate 256 CHR ''a''\<rparr>) =
     (Inl RequestValidationError, empty_db)"
  by (simp add: route_update_movie_def MovieUpdateSchema_validate_def given_ok_def past_date_body_def
      long_name_body_def route_create_movie_def create_movie_def MovieCreateSchema_ok_def
      MovieBaseSchema_ok_def date_not_too_far_def dune_def empty_db_def example_statuses_def
      MovieResponseSchema_validate_def next_id_def Let_def)

text \<open>
  Whatever the store and the movie, a body that gives a date is refused before the
  handler runs.
\<close>

lemma update_refuses_every_date:
  "MovieUpdateSchema.date body = Given (Some d) \<Longrightarrow>
     route_update_movie statuses store db movie_id body = (Inl RequestValidationError, db)"
  by (simp add: route_update_movie_def MovieUpdateSchema_validate_def given_ok_def)

text \<open>Validation never reads the keys that the schema does not declare.\<close>

lemma validate_ignores_extra:
  "MovieUpdateSchema_validate statuses (body\<lparr>extra := ks\<rparr>) = MovieUpdateSchema_validate statuses body"
  by (simp add: MovieUpdateSchema_validate_def)

text \<open>
  C10. A body whose declared fields pass the schema is accepted whatever other keys it
  carries (the relationship keys among them): for a stored movie and a store that accepts
  the result, the route answers 200 ``Movie updated successfully.'' with the same
  committed store as for the body without those keys, and the keys of the movies, their
  country references, the lookup tables and the association tables are the old ones.
\<close>

theorem update_drops_undeclared_keys:
  assumes found: "[m \<leftarrow> Database.movies db. MovieModel.id' m = movie_id] = [movie]"
      and valid: "MovieUpdateSchema_validate statuses body = Inr u"
      and accepted: "store db (fold (\<lambda>it m. setattr m it) (model_dump_exclude_unset u) movie) = None"
  shows "\<exists>db'. route_update_movie statuses store db movie_id (body\<lparr>extra := ks\<rparr>) = (Inr (200, Movie_updated), db')
           \<and> route_update_movie statuses store db movie_id (body\<lparr>extra := []\<rparr>) = (Inr (200, Movie_updated), db')
           \<and> map MovieModel.id' (Database.movies db') = map MovieModel.id' (Database.movies db)
           \<and> map country_id (Database.movies db') = map country_id (Database.movies db)
           \<and> countries db' = countries db
           \<and> Database.genres db' = Database.genres db
           \<and> Database.actors db' = Database.actors db
           \<and> Database.languages db' = Database.languages db
           \<and> movies_genres db' = movies_genres db
           \<and> actors_movies db' = actors_movies db
           \<and> movies_languages db' = movies_languages db"
proof -
  have key: "MovieModel.id' movie = movie_id"
    using found by (rule filter_single_key)
  have "\<forall>m \<in> set [m \<leftarrow> Database.movies db. MovieModel.id' m = movie_id]. country_id m = country_id movie"
    by (simp only: found) simp
  then have same: "\<forall>m \<in> set (Database.movies db). MovieModel.id' m = movie_id \<longrightarrow> country_id m = country_id movie"
    by simp
  show ?thesis
    using valid accepted key same
    by (simp add: route_update_movie_def validate_ignores_extra update_movie_found [OF found]
        fold_setattr_dump comp_def)
qed

theorem update_drops_undeclared_keys_witness:
  "route_update_movie example_statuses accept_all dune_db 1 relationships_body =
     (Inr (200, Movie_updated), dune_db\<lparr>Database.movies := [dune_row\<lparr>MovieModel.score := Some 42\<rparr>]\<rparr>)"
proof -
  have found: "[m \<leftarrow> Database.movies dune_db. MovieModel.id' m = 1] = [dune_row]"
    by (simp add: dune_db_def dune_row_def)
  have valid: "MovieUpdateSchema_validate example_statuses relationships_body = Inr score_42"
    by (simp add: MovieUpdateSchema_validate_def relationships_body_def given_ok_def score_42_def)
  have accepted: "accept_all dune_db (fold (\<lambda>it m. setattr m it) (model_dump_exclude_unset score_42) dune_row) = None"
    by (simp add: accept_all_def)
  have same: "relationships_body\<lparr>extra := extra relationships_body\<rparr> = relationships_body"
    by simp
  show ?thesis
    using update_drops_undeclared_keys [where store = accept_all and ks = "extra relationships_body", OF found valid accepted]
    by (simp add: relationships_body_def score_42_def route_update_movie_def
        MovieUpdateSchema_validate_def given_ok_def update_movie_def commit_def accept_all_def
        dune_db_def dune_row_def model_dump_exclude_unset_def dump_field_def)
qed

section \<open>Properties of the listing\<close>

lemma items_apaginate:
  "items (apaginate rows p sz) = take (nat sz) (drop (nat ((p - 1) * sz)) rows)"
  by (simp add: apaginate_def)

lemma length_order_by_id_desc: "length (order_by_id_desc ms) = length ms"
  by (simp add: order_by_id_desc_def)

lemma set_order_by_id_desc: "set (order_by_id_desc ms) = set ms"
  by (simp add: order_by_id_desc_def)

lemma sorted_order_by_id_desc:
  "sorted_wrt (\<lambda>a b. a \<ge> b) (map MovieModel.id' (order_by_id_desc ms))"
proof -
  have "sorted (map MovieModel.id' (sort_key MovieModel.id' ms))"
    by (rule sorted_sort_key)
  then have "sorted (rev (map MovieModel.id' (order_by_id_desc ms)))"
    by (simp add: order_by_id_desc_def rev_map)
  then show ?thesis
    by (metis rev_rev_ident sorted_wrt_rev)
qed

lemma page_empty_iff:
  assumes "1 \<le> per_page"
  shows "items (apaginate (order_by_id_desc ms) page_no per_page) = []
         \<longleftrightarrow> length ms \<le> nat ((page_no - 1) * per_page)"
  using assms by (simp add: items_apaginate length_order_by_id_desc)

lemma get_movies_not_found_iff:
  "get_movies db page_no per_page = Inl (HTTPException 404 No_movies_found)
   \<longleftrightarrow> items (apaginate (order_by_id_desc (Database.movies db)) page_no per_page) = []"
  by (auto simp add: get_movies_def Let_def apaginate_def)

lemma get_movies_cases:
  "get_movies db page_no per_page = Inl (HTTPException 404 No_movies_found)
   \<or> (\<exists>d. get_movies db page_no per_page = Inr d
          \<and> movies_dict.movies d = items (apaginate (order_by_id_desc (Database.movies db)) page_no per_page))"
  by (simp add: get_movies_def Let_def)

text \<open>
  C5. For \<^verbatim>\<open>page >= 1\<close> and \<^verbatim>\<open>per_page\<close> in [1, 20] the listing answers 404
  ``No movies found.'' exactly when the selected page holds no row, that is exactly when
  the catalog has no more than \<^verbatim>\<open>(page - 1) * per_page\<close> movies: always on an empty
  catalog, and beyond the last page of a non-empty one.
\<close>

theorem list_not_found_iff:
  assumes "1 \<le> page_no" and "1 \<le> per_page" and "per_page \<le> 20"
  shows "(route_get_movies today db page_no per_page = Inl (HTTPException 404 No_movies_found)
          \<longleftrightarrow> items (apaginate (order_by_id_desc (Database.movies db)) page_no per_page) = [])
       \<and> (items (apaginate (order_by_id_desc (Database.movies db)) page_no per_page) = []
          \<longleftrightarrow> length (Database.movies db) \<le> nat ((page_no - 1) * per_page))
       \<and> (Database.movies db = []
          \<longrightarrow> route_get_movies today db page_no per_page = Inl (HTTPException 404 No_movies_found))"
proof -
  have a: "route_get_movies today db page_no per_page = Inl (HTTPException 404 No_movies_found)
          \<longleftrightarrow> items (apaginate (order_by_id_desc (Database.movies db)) page_no per_page) = []"
    using assms get_movies_cases [of db page_no per_page] get_movies_not_found_iff [of db page_no per_page]
    by (auto simp add: route_get_movies_def split: sum.splits option.splits)
  have b: "items (apaginate (order_by_id_desc (Database.movies db)) page_no per_page) = []
          \<longleftrightarrow> length (Database.movies db) \<le> nat ((page_no - 1) * per_page)"
    using assms(2) by (rule page_empty_iff)
  show ?thesis using a b by simp
qed

theorem list_not_found_iff_witness:
  "route_get_movies 739923 trilogy_db 3 2 = Inl (HTTPException 404 No_movies_found)
   \<and> route_get_movies 739923 trilogy_db 2 2 \<noteq> Inl (HTTPException 404 No_movies_found)
   \<and> route_get_movies 739923 empty_db 1 10 = Inl (HTTPException 404 No_movies_found)"
  using list_not_found_iff [of 3 2 739923 trilogy_db] list_not_found_iff [of 2 2 739923 trilogy_db]
    list_not_found_iff [of 1 10 739923 empty_db]
  by (simp add: trilogy_db_def dune_db_def empty_db_def)

lemma those_map_Some:
  "(\<forall>x \<in> set xs. f x \<noteq> None) \<Longrightarrow> those (map f xs) = Some (map (\<lambda>x. the (f x)) xs)"
  by (induction xs) auto

lemma MovieResponseSchema_validate_id:
  "MovieResponseSchema_validate today m = Some r \<Longrightarrow> MovieResponseSchema.id' r = MovieModel.id' m"
  by (auto simp add: MovieResponseSchema_validate_def split: option.splits if_splits)

lemma sorted_wrt_take_drop:
  "sorted_wrt P xs \<Longrightarrow> sorted_wrt P (take n (drop k xs))"
  by (simp add: sorted_wrt_drop sorted_wrt_take)

text \<open>
  C8, as amended. For \<^verbatim>\<open>page >= 1\<close> and \<^verbatim>\<open>per_page\<close> in [1, 20], when the catalog has
  more than \<^verbatim>\<open>(page - 1) * per_page\<close> movies, the handler returns the rows of that slice
  of the catalog in descending order of key: \<^verbatim>\<open>min per_page (total - (page - 1) * per_page)\<close>
  of them; and when each of these rows passes the summary schema, the route answers
  with their summaries, in that order.
\<close>

theorem list_page_contents:
  assumes "1 \<le> page_no" and "1 \<le> per_page" and "per_page \<le> 20"
      and in_range: "nat ((page_no - 1) * per_page) < length (Database.movies db)"
  shows "\<exists>d. get_movies db page_no per_page = Inr d
           \<and> movies_dict.movies d =
               take (nat per_page) (drop (nat ((page_no - 1) * per_page))
                 (order_by_id_desc (Database.movies db)))
           \<and> length (movies_dict.movies d) =
               min (nat per_page) (length (Database.movies db) - nat ((page_no - 1) * per_page))
           \<and> sorted_wrt (\<lambda>a b. a \<ge> b) (map MovieModel.id' (movies_dict.movies d))
           \<and> set (movies_dict.movies d) \<subseteq> set (Database.movies db)
           \<and> ((\<forall>m \<in> set (movies_dict.movies d). MovieResponseSchema_validate today m \<noteq> None) \<longrightarrow>
                (\<exists>r. route_get_movies today db page_no per_page = Inr r
                   \<and> those (map (MovieResponseSchema_validate today) (movies_dict.movies d))
                       = Some (MoviesPage.movies r)
                   \<and> map MovieResponseSchema.id' (MoviesPage.movies r)
                       = map MovieModel.id' (movies_dict.movies d)
                   \<and> length (MoviesPage.movies r) = length (movies_dict.movies d)))"
proof -
  let ?rows = "take (nat per_page) (drop (nat ((page_no - 1) * per_page))
                 (order_by_id_desc (Database.movies db)))"
  have nonempty: "?rows \<noteq> []"
    using assms(2) in_range by (simp add: length_order_by_id_desc)
  have "get_movies db page_no per_page \<noteq> Inl (HTTPException 404 No_movies_found)"
    using nonempty by (simp add: get_movies_not_found_iff items_apaginate)
  then obtain d where d: "get_movies db page_no per_page = Inr d" and rows: "movies_dict.movies d = ?rows"
    using get_movies_cases [of db page_no per_page] by (auto simp add: items_apaginate)
  have len: "length ?rows = min (nat per_page) (length (Database.movies db) - nat ((page_no - 1) * per_page))"
    by (simp add: length_order_by_id_desc)
  have srt: "sorted_wrt (\<lambda>a b. a \<ge> b) (map MovieModel.id' ?rows)"
    using sorted_order_by_id_desc [of "Database.movies db"]
    by (simp add: take_map [symmetric] drop_map [symmetric] sorted_wrt_take_drop)
  have sub: "set ?rows \<subseteq> set (Database.movies db)"
    using set_take_subset set_drop_subset set_order_by_id_desc by fast
  have route: "\<exists>r. route_get_movies today db page_no per_page = Inr r
                   \<and> those (map (MovieResponseSchema_validate today) ?rows) = Some (MoviesPage.movies r)
                   \<and> map MovieResponseSchema.id' (MoviesPage.movies r) = map MovieModel.id' ?rows
                   \<and> length (MoviesPage.movies r) = length ?rows"
    if ok: "\<forall>m \<in> set ?rows. MovieResponseSchema_validate today m \<noteq> None"
  proof -
    have th: "those (map (MovieResponseSchema_validate today) ?rows)
               = Some (map (\<lambda>m. the (MovieResponseSchema_validate today m)) ?rows)"
      using ok by (rule those_map_Some)
    have ids: "map MovieResponseSchema.id' (map (\<lambda>m. the (MovieResponseSchema_validate today m)) ?rows)
               = map MovieModel.id' ?rows"
      using ok by (auto simp add: MovieResponseSchema_validate_id)
    show ?thesis
      using assms(1-3) d rows th ids
      by (simp add: route_get_movies_def MoviesPage_validate_def)
  qed
  show ?thesis
    using d rows len srt sub route by (intro exI [of _ d]) (simp only: simp_thms, blast)
qed

theorem list_page_contents_witness:
  "(case route_get_movies 739923 trilogy_db 1 2 of
      Inl e \<Rightarrow> []
    | Inr r \<Rightarrow> map MovieResponseSchema.id' (MoviesPage.movies r)) = [3, 2]
   \<and> (case route_get_movies 739923 trilogy_db 2 2 of
      Inl e \<Rightarrow> []
    | Inr r \<Rightarrow> map MovieBaseSchema.name (MoviesPage.movies r)) = [''Dune'']"
  using list_page_contents [of 1 2 trilogy_db 739923] list_page_contents [of 2 2 trilogy_db 739923]
  by (simp add: route_get_movies_def get_movies_def apaginate_def order_by_id_desc_def
      trilogy_db_def dune_db_def dune_row_def part_two_row_def part_three_row_def Let_def
      MoviesPage_validate_def MovieResponseSchema_validate_def MovieBaseSchema_ok_def
      date_not_too_far_def)

text \<open>
  C8 as stated fails beyond the last page of a non-empty catalog: with one movie stored,
  page 2 of size 10 is not a list of no summaries but the error 404.
\<close>

theorem list_beyond_last_page:
  "Database.movies dune_db \<noteq> []
   \<and> route_get_movies 739923 dune_db 2 10 = Inl (HTTPException 404 No_movies_found)"
  by (simp add: route_get_movies_def get_movies_def apaginate_def order_by_id_desc_def
      dune_db_def Let_def)

section \<open>Properties of the deletion and of the conflict check\<close>

text \<open>A key that is unique in a table selects the one row that has it.\<close>

lemma filter_unique_key:
  "distinct (map f xs) \<Longrightarrow> x \<in> set xs \<Longrightarrow> [y \<leftarrow> xs. f y = f x] = [x]"
proof (induction xs)
  case Nil
  then show ?case by simp
next
  case (Cons a xs)
  show ?case
  proof (cases "x = a")
    case True
    have "f a \<notin> f ` set xs"
      using Cons.prems(1) by simp
    then have "\<forall>y \<in> set xs. f y \<noteq> f a"
      by (metis imageI)
    then have "[y \<leftarrow> xs. f y = f a] = []"
      by (simp add: filter_empty_conv)
    with True show ?thesis by simp
  next
    case False
    then have "x \<in> set xs" using Cons.prems(2) by simp
    moreover have "f a \<notin> f ` set xs"
      using Cons.prems(1) by simp
    then have "f a \<noteq> f x"
      using \<open>x \<in> set xs\<close> by (metis imageI)
    moreover have "distinct (map f xs)"
      using Cons.prems(1) by simp
    ultimately show ?thesis
      using Cons.IH by simp
  qed
qed

lemma load_related_filter:
  assumes "MovieModel.id' other \<noteq> k"
  shows "load_related {r \<in> assoc. fst r \<noteq> k} tbl other = load_related assoc tbl other"
  using assms by (simp add: load_related_def)

text \<open>
  C9. \<^verbatim>\<open>delete_movie\<close> answers 404 when no stored movie has the key. When one has
  (keys being unique) it succeeds, and the committed store lacks that movie's row and
  its association rows and nothing else: the four lookup tables are the old ones, every
  other movie keeps its related rows, and reading the deleted key afterwards is a 404.
\<close>

theorem delete_movie_effect:
  "((\<forall>m \<in> set (Database.movies db). MovieModel.id' m \<noteq> movie_id)
      \<longrightarrow> delete_movie db movie_id = (Inl (HTTPException 404 Movie_not_found), db))
   \<and> (distinct (map MovieModel.id' (Database.movies db))
       \<and> movie \<in> set (Database.movies db) \<and> MovieModel.id' movie = movie_id
      \<longrightarrow> (\<exists>db'. delete_movie db movie_id = (Inr (), db')
             \<and> Database.movies db' = [m \<leftarrow> Database.movies db. MovieModel.id' m \<noteq> movie_id]
             \<and> movies_genres db' = {r \<in> movies_genres db. fst r \<noteq> movie_id}
             \<and> actors_movies db' = {r \<in> actors_movies db. fst r \<noteq> movie_id}
             \<and> movies_languages db' = {r \<in> movies_languages db. fst r \<noteq> movie_id}
             \<and> countries db' = countries db
             \<and> Database.genres db' = Database.genres db
             \<and> Database.actors db' = Database.actors db
             \<and> Database.languages db' = Database.languages db
             \<and> get_movie today statuses db' movie_id = Inl (HTTPException 404 Movie_not_found)
             \<and> (\<forall>other. MovieModel.id' other \<noteq> movie_id \<longrightarrow>
                   load_related (movies_genres db') (Database.genres db') other
                   = load_related (movies_genres db) (Database.genres db) other)))"
proof (intro conjI impI)
  assume "\<forall>m \<in> set (Database.movies db). MovieModel.id' m \<noteq> movie_id"
  then have "[m \<leftarrow> Database.movies db. MovieModel.id' m = movie_id] = []"
    by (simp add: filter_empty_conv)
  then show "delete_movie db movie_id = (Inl (HTTPException 404 Movie_not_found), db)"
    by (simp add: delete_movie_def)
next
  assume a: "distinct (map MovieModel.id' (Database.movies db))
       \<and> movie \<in> set (Database.movies db) \<and> MovieModel.id' movie = movie_id"
  then have found: "[m \<leftarrow> Database.movies db. MovieModel.id' m = movie_id] = [movie]"
    using filter_unique_key [of MovieModel.id' "Database.movies db" movie] by simp
  have gone: "[m \<leftarrow> [m \<leftarrow> Database.movies db. MovieModel.id' m \<noteq> movie_id]. MovieModel.id' m = movie_id] = []"
    by (simp add: filter_empty_conv)
  show "\<exists>db'. delete_movie db movie_id = (Inr (), db')
             \<and> Database.movies db' = [m \<leftarrow> Database.movies db. MovieModel.id' m \<noteq> movie_id]
             \<and> movies_genres db' = {r \<in> movies_genres db. fst r \<noteq> movie_id}
             \<and> actors_movies db' = {r \<in> actors_movies db. fst r \<noteq> movie_id}
             \<and> movies_languages db' = {r \<in> movies_languages db. fst r \<noteq> movie_id}
             \<and> countries db' = countries db
             \<and> Database.genres db' = Database.genres db
             \<and> Database.actors db' = Database.actors db
             \<and> Database.languages db' = Database.languages db
             \<and> get_movie today statuses db' movie_id = Inl (HTTPException 404 Movie_not_found)
             \<and> (\<forall>other. MovieModel.id' other \<noteq> movie_id \<longrightarrow>
                   load_related (movies_genres db') (Database.genres db') other
                   = load_related (movies_genres db) (Database.genres db) other)"
    using a found gone by (simp add: delete_movie_def get_movie_def load_related_filter)
qed

theorem delete_movie_effect_witness:
  "delete_movie trilogy_db 7 = (Inl (HTTPException 404 Movie_not_found), trilogy_db)
   \<and> delete_movie trilogy_db 2 =
       (Inr (), trilogy_db\<lparr>Database.movies := [dune_row, part_three_row],
                           movies_genres := {(1, 1), (3, 1)},
                           actors_movies := {(1, 1), (3, 1)},
                           movies_languages := {(1, 1), (3, 1)}\<rparr>)
   \<and> get_movie 739923 example_statuses (snd (delete_movie trilogy_db 2)) 2
       = Inl (HTTPException 404 Movie_not_found)
   \<and> Database.genres (snd (delete_movie trilogy_db 2)) = [\<lparr>NamedModel.id' = 1, name = ''Sci-Fi''\<rparr>]"
proof -
  have rows: "{r \<in> {(1, 1), (2, 1), (3, 1)}. fst r \<noteq> (2::int)} = {(1, 1), (3, 1::int)}"
    by auto
  show ?thesis
    using delete_movie_effect [of trilogy_db 7 part_two_row 739923 example_statuses]
      delete_movie_effect [of trilogy_db 2 part_two_row 739923 example_statuses] rows
    by (simp add: delete_movie_def get_movie_def trilogy_db_def dune_db_def dune_row_def
        part_two_row_def part_three_row_def)
qed

text \<open>
  C4. When a stored movie has the name and the date of the body (and no two stored
  movies share both, the invariant of the data model), \<^verbatim>\<open>create_movie\<close> raises the 409
  before any write: the committed store is the old one. So does the route for a body
  that passes the creation schema.
\<close>

theorem create_movie_conflict:
  assumes stored: "existing \<in> set (Database.movies db)"
      and same_name: "MovieModel.name existing = Some (MovieBaseSchema.name body)"
      and same_date: "MovieModel.date existing = Some (MovieBaseSchema.date body)"
      and unique: "distinct (map (\<lambda>m. (MovieModel.name m, MovieModel.date m)) (Database.movies db))"
  shows "create_movie db body =
           (Inl (HTTPException 409
                  (Already_exists (MovieBaseSchema.name body) (MovieBaseSchema.date body))), db)
         \<and> (MovieCreateSchema_ok today statuses body \<longrightarrow>
              route_create_movie today statuses db body =
                (Inl (HTTPException 409
                       (Already_exists (MovieBaseSchema.name body) (MovieBaseSchema.date body))), db))"
proof -
  have "[m \<leftarrow> Database.movies db.
          (MovieModel.name m, MovieModel.date m) = (MovieModel.name existing, MovieModel.date existing)]
        = [existing]"
    using unique stored by (rule filter_unique_key)
  then have "[m \<leftarrow> Database.movies db.
                MovieModel.name m = Some (MovieBaseSchema.name body)
                \<and> MovieModel.date m = Some (MovieBaseSchema.date body)] = [existing]"
    by (simp add: same_name same_date)
  then have "create_movie db body =
           (Inl (HTTPException 409
                  (Already_exists (MovieBaseSchema.name body) (MovieBaseSchema.date body))), db)"
    by (simp add: create_movie_def)
  then show ?thesis by (simp add: route_create_movie_def)
qed

theorem create_movie_conflict_witness:
  "route_create_movie 739923 example_statuses dune_db
       (dune\<lparr>MovieCreateSchema.country := ''CAN'', MovieCreateSchema.genres := [''Drama'']\<rparr>)
   = (Inl (HTTPException 409 (Already_exists ''Dune'' 738085)), dune_db)"
proof -
  let ?body = "dune\<lparr>MovieCreateSchema.country := ''CAN'', MovieCreateSchema.genres := [''Drama'']\<rparr>"
  have stored: "dune_row \<in> set (Database.movies dune_db)"
    by (simp add: dune_db_def)
  have same_name: "MovieModel.name dune_row = Some (MovieBaseSchema.name ?body)"
    by (simp add: dune_row_def dune_def)
  have same_date: "MovieModel.date dune_row = Some (MovieBaseSchema.date ?body)"
    by (simp add: dune_row_def dune_def)
  have unique: "distinct (map (\<lambda>m. (MovieModel.name m, MovieModel.date m)) (Database.movies dune_db))"
    by (simp add: dune_db_def)
  have ok: "MovieCreateSchema_ok 739923 example_statuses ?body"
    by (simp add: MovieCreateSchema_ok_def MovieBaseSchema_ok_def date_not_too_far_def dune_def
        example_statuses_def)
  show ?thesis
    using create_movie_conflict [OF stored same_name same_date unique, of 739923 example_statuses] ok
    by (simp add: dune_def)
qed

section \<open>Properties of the creation\<close>

lemma filter_single_mem:
  assumes "filter P ms = [x]"
  shows "x \<in> set ms \<and> P x"
proof -
  have "x \<in> set (filter P ms)" by (simp only: assms list.set_intros)
  then show ?thesis by simp
qed

lemma scalar_one_or_none_Inr:
  "scalar_one_or_none xs = Inr r \<longleftrightarrow> (xs = [] \<and> r = None) \<or> (\<exists>x. xs = [x] \<and> r = Some x)"
  by (cases xs rule: scalar_one_or_none.cases) auto

text \<open>What a successful \<^verbatim>\<open>create_movie\<close> has gone through.\<close>

lemma create_movie_Inr:
  assumes "create_movie db movie = (Inr new_movie, db')"
  obtains found genre_objs genres' actor_objs actors' language_objs languages'
  where "[m \<leftarrow> Database.movies db.
            MovieModel.name m = Some (MovieBaseSchema.name movie)
            \<and> MovieModel.date m = Some (MovieBaseSchema.date movie)] = []"
    and "scalar_one_or_none
           [c \<leftarrow> countries db. CountryModel.code c = MovieCreateSchema.country movie] = Inr found"
    and "get_or_create (Database.genres db) (MovieCreateSchema.genres movie) = Inr (genre_objs, genres')"
    and "get_or_create (Database.actors db) (MovieCreateSchema.actors movie) = Inr (actor_objs, actors')"
    and "get_or_create (Database.languages db) (MovieCreateSchema.languages movie)
           = Inr (language_objs, languages')"
    and "new_movie =
            \<lparr>MovieModel.id' = next_id (map MovieModel.id' (Database.movies db)),
             name = Some (MovieBaseSchema.name movie),
             date = Some (MovieBaseSchema.date movie),
             score = Some (MovieBaseSchema.score movie),
             overview = Some (MovieBaseSchema.overview movie),
             status = Some (MovieCreateSchema.status movie),
             budget = Some (MovieCreateSchema.budget movie),
             revenue = Some (MovieCreateSchema.revenue movie),
             country_id =
               (case found of
                  Some c \<Rightarrow> CountryModel.id' c
                | None \<Rightarrow> next_id (map CountryModel.id' (countries db)))\<rparr>"
    and "db' =
          \<lparr>Database.movies = Database.movies db @ [new_movie],
           countries =
             (case found of
                Some c \<Rightarrow> countries db
              | None \<Rightarrow> countries db
                  @ [\<lparr>CountryModel.id' = next_id (map CountryModel.id' (countries db)),
                      code = MovieCreateSchema.country movie, name = None\<rparr>]),
           genres = genres',
           actors = actors',
           languages = languages',
           movies_genres = movies_genres db
             \<union> (\<lambda>g. (MovieModel.id' new_movie, NamedModel.id' g)) ` set genre_objs,
           actors_movies = actors_movies db
             \<union> (\<lambda>a. (MovieModel.id' new_movie, NamedModel.id' a)) ` set actor_objs,
           movies_languages = movies_languages db
             \<union> (\<lambda>l. (MovieModel.id' new_movie, NamedModel.id' l)) ` set language_objs\<rparr>"
  using assms
  by (auto simp add: create_movie_def Let_def scalar_one_or_none_Inr
      split: sum.splits option.splits prod.splits)

text \<open>With one country of the code stored, no outcome of \<^verbatim>\<open>create_movie\<close> writes a country.\<close>

lemma create_movie_reuses_country:
  assumes "[c \<leftarrow> countries db. CountryModel.code c = MovieCreateSchema.country movie] = [c0]"
  shows "countries (snd (create_movie db movie)) = countries db"
  using assms
  by (simp add: create_movie_def Let_def split: sum.splits option.splits prod.splits)

text \<open>
  C6. After a successful \<^verbatim>\<open>create_movie\<close>: when a country with the body's code was
  stored, the country table is the old one; when none was, it is the old one followed
  by one row with that code, a new key and no name. Either way exactly one country has
  the code, the movie refers to it, and no later creation with the same code, whatever
  its outcome, writes a country.
\<close>

theorem create_movie_country:
  assumes created: "create_movie db movie = (Inr new_movie, db')"
  shows "((\<exists>c \<in> set (countries db). CountryModel.code c = MovieCreateSchema.country movie)
            \<longrightarrow> countries db' = countries db)
       \<and> ((\<forall>c \<in> set (countries db). CountryModel.code c \<noteq> MovieCreateSchema.country movie)
            \<longrightarrow> countries db' = countries db
                  @ [\<lparr>CountryModel.id' = next_id (map CountryModel.id' (countries db)),
                      code = MovieCreateSchema.country movie, name = None\<rparr>])
       \<and> (\<exists>c. [c \<leftarrow> countries db'. CountryModel.code c = MovieCreateSchema.country movie] = [c]
               \<and> country_id new_movie = CountryModel.id' c)
       \<and> (\<forall>second. MovieCreateSchema.country second = MovieCreateSchema.country movie
              \<longrightarrow> countries (snd (create_movie db' second)) = countries db')"
proof -
  let ?sel = "[c \<leftarrow> countries db. CountryModel.code c = MovieCreateSchema.country movie]"
  let ?new = "\<lparr>CountryModel.id' = next_id (map CountryModel.id' (countries db)),
               code = MovieCreateSchema.country movie, name = None\<rparr>"
  obtain found where
      lookup: "scalar_one_or_none ?sel = Inr found"
    and cid: "country_id new_movie =
               (case found of Some c \<Rightarrow> CountryModel.id' c
                | None \<Rightarrow> next_id (map CountryModel.id' (countries db)))"
    and tbl: "countries db' = (case found of Some c \<Rightarrow> countries db | None \<Rightarrow> countries db @ [?new])"
    using created by (rule create_movie_Inr) simp
  show ?thesis
  proof (cases found)
    case None
    then have empty: "?sel = []"
      using lookup by (simp add: scalar_one_or_none_Inr)
    then have absent: "\<forall>c \<in> set (countries db). CountryModel.code c \<noteq> MovieCreateSchema.country movie"
      by (simp add: filter_empty_conv)
    have one: "[c \<leftarrow> countries db'. CountryModel.code c = MovieCreateSchema.country movie] = [?new]"
      using None tbl empty by simp
    have "\<forall>second. MovieCreateSchema.country second = MovieCreateSchema.country movie
              \<longrightarrow> countries (snd (create_movie db' second)) = countries db'"
      using one by (simp add: create_movie_reuses_country)
    then show ?thesis
      using None tbl cid absent one by auto
  next
    case (Some c)
    then have single: "?sel = [c]"
      using lookup by (simp add: scalar_one_or_none_Inr)
    have one: "[c \<leftarrow> countries db'. CountryModel.code c = MovieCreateSchema.country movie] = [c]"
      using Some tbl single by simp
    have present: "\<exists>c \<in> set (countries db). CountryModel.code c = MovieCreateSchema.country movie"
      using filter_single_mem [OF single] by blast
    have "\<forall>second. MovieCreateSchema.country second = MovieCreateSchema.country movie
              \<longrightarrow> countries (snd (create_movie db' second)) = countries db'"
      using one by (simp add: create_movie_reuses_country)
    then show ?thesis
      using Some tbl cid present one by auto
  qed
qed

theorem create_movie_country_witness:
  "countries (snd (create_movie empty_db dune)) = [\<lparr>CountryModel.id' = 1, code = ''USA'', name = None\<rparr>]
   \<and> countries (snd (create_movie (snd (create_movie empty_db dune)) dune_part_two))
       = [\<lparr>CountryModel.id' = 1, code = ''USA'', name = None\<rparr>]
   \<and> map country_id (Database.movies (snd (create_movie (snd (create_movie empty_db dune)) dune_part_two)))
       = [1, 1]"
proof -
  have created: "create_movie empty_db dune = (Inr dune_row, dune_db)"
    by (simp add: create_movie_def empty_db_def dune_def dune_row_def dune_db_def next_id_def Let_def)
  have absent: "\<forall>c \<in> set (countries empty_db). CountryModel.code c \<noteq> MovieCreateSchema.country dune"
    by (simp add: empty_db_def)
  have same: "MovieCreateSchema.country dune_part_two = MovieCreateSchema.country dune"
    by (simp add: dune_part_two_def)
  have second: "map country_id (Database.movies (snd (create_movie dune_db dune_part_two))) = [1, 1]"
    by (simp add: create_movie_def dune_part_two_def dune_def dune_row_def dune_db_def next_id_def Let_def)
  have reused: "countries (snd (create_movie dune_db dune_part_two)) = countries dune_db"
    using create_movie_country [OF created] same by blast
  have "countries dune_db = countries empty_db
          @ [\<lparr>CountryModel.id' = next_id (map CountryModel.id' (countries empty_db)),
              code = MovieCreateSchema.country dune, name = None\<rparr>]"
    using create_movie_country [OF created] absent by blast
  then have "countries dune_db = [\<lparr>CountryModel.id' = 1, code = ''USA'', name = None\<rparr>]"
    by (simp add: empty_db_def dune_def next_id_def)
  then show ?thesis
    using reused second by (simp add: created)
qed

text \<open>The key of a new row is above every key of the table.\<close>

lemma fold_max_bounds:
  fixes a :: int
  shows "a \<le> fold max ks a \<and> (\<forall>k \<in> set ks. k \<le> fold max ks a)"
proof (induction ks arbitrary: a)
  case Nil
  then show ?case by simp
next
  case (Cons x xs)
  have "max x a \<le> fold max xs (max x a)" and "\<forall>k \<in> set xs. k \<le> fold max xs (max x a)"
    using Cons.IH [of "max x a"] by simp_all
  then show ?case by auto
qed

lemma next_id_fresh: "k \<in> set ks \<Longrightarrow> k < next_id ks"
  using fold_max_bounds [of 0 ks] by (auto simp add: next_id_def)

lemma next_id_not_in: "next_id (map f xs) \<notin> f ` set xs"
proof
  assume "next_id (map f xs) \<in> f ` set xs"
  then have "next_id (map f xs) \<in> set (map f xs)" by simp
  then have "next_id (map f xs) < next_id (map f xs)" by (rule next_id_fresh)
  then show False by simp
qed

text \<open>A select on a unique column finds at most one row.\<close>

lemma scalar_one_or_none_unique:
  assumes "distinct (map f xs)"
  shows "\<exists>r. scalar_one_or_none [x \<leftarrow> xs. f x = k] = Inr r"
proof (cases "\<exists>x \<in> set xs. f x = k")
  case True
  then obtain x where "x \<in> set xs" and "f x = k" by auto
  then have "[y \<leftarrow> xs. f y = k] = [x]"
    using filter_unique_key [OF assms, of x] by simp
  then show ?thesis by simp
next
  case False
  then have "[x \<leftarrow> xs. f x = k] = []" by (simp add: filter_empty_conv)
  then show ?thesis by simp
qed

text \<open>The loops of get-or-create.\<close>

lemma get_or_create_step:
  "get_or_create tbl (n # ns) = Inr (objs, tbl'') \<longleftrightarrow>
     (\<exists>obj rest tbl'.
        objs = obj # rest \<and> get_or_create tbl' ns = Inr (rest, tbl'')
        \<and> (([g \<leftarrow> tbl. NamedModel.name g = n] = []
              \<and> obj = \<lparr>NamedModel.id' = next_id (map NamedModel.id' tbl), name = n\<rparr>
              \<and> tbl' = tbl @ [obj])
            \<or> ([g \<leftarrow> tbl. NamedModel.name g = n] = [obj] \<and> tbl' = tbl)))"
  by (auto simp add: Let_def scalar_one_or_none_Inr split: sum.splits option.splits prod.splits)

lemma get_or_create_props:
  assumes "get_or_create tbl ns = Inr (objs, tbl')"
  shows "map NamedModel.name objs = ns
       \<and> set objs \<subseteq> set tbl'
       \<and> set tbl \<subseteq> set tbl'
       \<and> (distinct (map NamedModel.id' tbl) \<longrightarrow> distinct (map NamedModel.id' tbl'))
       \<and> (distinct (map NamedModel.name tbl) \<longrightarrow> distinct (map NamedModel.name tbl'))"
  using assms
proof (induction ns arbitrary: tbl objs tbl')
  case Nil
  then show ?case by simp
next
  case (Cons n ns)
  from Cons.prems obtain obj rest mid where
      objs: "objs = obj # rest"
    and rec: "get_or_create mid ns = Inr (rest, tbl')"
    and step: "([g \<leftarrow> tbl. NamedModel.name g = n] = []
                \<and> obj = \<lparr>NamedModel.id' = next_id (map NamedModel.id' tbl), name = n\<rparr>
                \<and> mid = tbl @ [obj])
              \<or> ([g \<leftarrow> tbl. NamedModel.name g = n] = [obj] \<and> mid = tbl)"
    unfolding get_or_create_step by blast
  note ih = Cons.IH [OF rec]
  from step have obj_name: "NamedModel.name obj = n"
    using filter_single_key [where ms = tbl and f = NamedModel.name and k = n and x = obj] by auto
  from step have obj_in: "obj \<in> set mid"
  proof
    assume "[g \<leftarrow> tbl. NamedModel.name g = n] = []
                \<and> obj = \<lparr>NamedModel.id' = next_id (map NamedModel.id' tbl), name = n\<rparr>
                \<and> mid = tbl @ [obj]"
    then show ?thesis by simp
  next
    assume a: "[g \<leftarrow> tbl. NamedModel.name g = n] = [obj] \<and> mid = tbl"
    then show ?thesis using filter_single_mem [of _ tbl obj] by blast
  qed
  from step have sub: "set tbl \<subseteq> set mid" by auto
  from step have ids: "distinct (map NamedModel.id' tbl) \<longrightarrow> distinct (map NamedModel.id' mid)"
    using next_id_not_in [of NamedModel.id' tbl] by auto
  from step have names: "distinct (map NamedModel.name tbl) \<longrightarrow> distinct (map NamedModel.name mid)"
    by (auto simp add: filter_empty_conv)
  show ?case
    using ih objs obj_name obj_in sub ids names by auto
qed

lemma get_or_create_total:
  assumes "distinct (map NamedModel.name tbl)"
  shows "\<exists>objs tbl'. get_or_create tbl ns = Inr (objs, tbl')"
  using assms
proof (induction ns arbitrary: tbl)
  case Nil
  then show ?case by simp
next
  case (Cons n ns)
  obtain r where r: "scalar_one_or_none [g \<leftarrow> tbl. NamedModel.name g = n] = Inr r"
    using scalar_one_or_none_unique [OF Cons.prems] by blast
  show ?case
  proof (cases r)
    case None
    then have empty: "[g \<leftarrow> tbl. NamedModel.name g = n] = []"
      using r by (simp add: scalar_one_or_none_Inr)
    let ?obj = "\<lparr>NamedModel.id' = next_id (map NamedModel.id' tbl), name = n\<rparr>"
    have "distinct (map NamedModel.name (tbl @ [?obj]))"
      using Cons.prems empty by (auto simp add: filter_empty_conv)
    then obtain rest tbl' where "get_or_create (tbl @ [?obj]) ns = Inr (rest, tbl')"
      using Cons.IH by blast
    then show ?thesis
      using empty unfolding get_or_create_step by blast
  next
    case (Some g)
    then have single: "[g \<leftarrow> tbl. NamedModel.name g = n] = [g]"
      using r by (simp add: scalar_one_or_none_Inr)
    obtain rest tbl' where "get_or_create tbl ns = Inr (rest, tbl')"
      using Cons.IH [OF Cons.prems] by blast
    then show ?thesis
      using single unfolding get_or_create_step by blast
  qed
qed


lemma get_or_create_table:
  assumes "get_or_create tbl ns = Inr (objs, tbl')"
  shows "\<exists>new. tbl' = tbl @ new
           \<and> NamedModel.name ` set new = set ns - NamedModel.name ` set tbl"
  using assms
proof (induction ns arbitrary: tbl objs tbl')
  case Nil
  then show ?case by simp
next
  case (Cons n ns)
  from Cons.prems obtain obj rest mid where
      rec: "get_or_create mid ns = Inr (rest, tbl')"
    and step: "([g \<leftarrow> tbl. NamedModel.name g = n] = []
                \<and> obj = \<lparr>NamedModel.id' = next_id (map NamedModel.id' tbl), name = n\<rparr>
                \<and> mid = tbl @ [obj])
              \<or> ([g \<leftarrow> tbl. NamedModel.name g = n] = [obj] \<and> mid = tbl)"
    unfolding get_or_create_step by blast
  obtain new where new: "tbl' = mid @ new"
      and names: "NamedModel.name ` set new = set ns - NamedModel.name ` set mid"
    using Cons.IH [OF rec] by blast
  from step show ?case
  proof
    assume a: "[g \<leftarrow> tbl. NamedModel.name g = n] = []
                \<and> obj = \<lparr>NamedModel.id' = next_id (map NamedModel.id' tbl), name = n\<rparr>
                \<and> mid = tbl @ [obj]"
    then have absent: "n \<notin> NamedModel.name ` set tbl"
      by (auto simp add: filter_empty_conv)
    have "tbl' = tbl @ (obj # new)"
      using a new by simp
    moreover have "NamedModel.name ` set (obj # new) = set (n # ns) - NamedModel.name ` set tbl"
      using a names absent by auto
    ultimately show ?thesis by blast
  next
    assume a: "[g \<leftarrow> tbl. NamedModel.name g = n] = [obj] \<and> mid = tbl"
    then have "obj \<in> set tbl \<and> NamedModel.name obj = n"
      using filter_single_mem [of "\<lambda>g. NamedModel.name g = n" tbl obj] by simp
    then have present: "n \<in> NamedModel.name ` set tbl"
      by (metis imageI)
    have "tbl' = tbl @ new"
      using a new by simp
    moreover have "NamedModel.name ` set new = set (n # ns) - NamedModel.name ` set tbl"
      using a names present by auto
    ultimately show ?thesis by blast
  qed
qed

text \<open>The collected objects are the rows of the table that bear a name of the list.\<close>

lemma get_or_create_objs:
  assumes unique: "distinct (map NamedModel.name tbl)"
      and run: "get_or_create tbl ns = Inr (objs, tbl')"
  shows "set objs = {g \<in> set tbl'. NamedModel.name g \<in> set ns}"
proof -
  have names: "map NamedModel.name objs = ns" and sub: "set objs \<subseteq> set tbl'"
    and unique': "distinct (map NamedModel.name tbl')"
    using get_or_create_props [OF run] unique by simp_all
  have inj: "inj_on NamedModel.name (set tbl')"
    using unique' by (simp add: distinct_map)
  have set_names: "NamedModel.name ` set objs = set ns"
    using names by (metis list.set_map)
  show ?thesis
  proof (intro equalityI subsetI)
    fix g assume "g \<in> set objs"
    then show "g \<in> {g \<in> set tbl'. NamedModel.name g \<in> set ns}"
      using sub set_names by auto
  next
    fix g assume "g \<in> {g \<in> set tbl'. NamedModel.name g \<in> set ns}"
    then have g: "g \<in> set tbl'" "NamedModel.name g \<in> set ns" by simp_all
    then obtain obj where obj: "obj \<in> set objs" "NamedModel.name obj = NamedModel.name g"
      using set_names by (metis imageE)
    then have "obj = g"
      using inj sub g(1) by (meson inj_onD subsetD)
    then show "g \<in> set objs" using obj(1) by simp
  qed
qed

text \<open>The related rows of a movie whose association rows were just written.\<close>

lemma load_related_new:
  assumes none: "\<forall>r \<in> assoc. fst r \<noteq> MovieModel.id' m"
      and sub: "set objs \<subseteq> set tbl"
      and keys: "distinct (map NamedModel.id' tbl)"
  shows "load_related (assoc \<union> (\<lambda>g. (MovieModel.id' m, NamedModel.id' g)) ` set objs) tbl m
         = mset [g \<leftarrow> tbl. g \<in> set objs]"
proof -
  have inj: "inj_on NamedModel.id' (set tbl)"
    using keys by (simp add: distinct_map)
  have "(MovieModel.id' m, NamedModel.id' g)
          \<in> assoc \<union> (\<lambda>g. (MovieModel.id' m, NamedModel.id' g)) ` set objs
        \<longleftrightarrow> g \<in> set objs" if "g \<in> set tbl" for g
  proof
    assume "(MovieModel.id' m, NamedModel.id' g)
          \<in> assoc \<union> (\<lambda>g. (MovieModel.id' m, NamedModel.id' g)) ` set objs"
    then have "(MovieModel.id' m, NamedModel.id' g)
          \<in> (\<lambda>g. (MovieModel.id' m, NamedModel.id' g)) ` set objs"
      using none by auto
    then obtain obj where "obj \<in> set objs" "NamedModel.id' obj = NamedModel.id' g"
      by auto
    then show "g \<in> set objs"
      using inj sub that by (metis inj_onD subsetD)
  next
    assume "g \<in> set objs"
    then show "(MovieModel.id' m, NamedModel.id' g)
          \<in> assoc \<union> (\<lambda>g. (MovieModel.id' m, NamedModel.id' g)) ` set objs"
      by simp
  qed
  then have "[g \<leftarrow> tbl. (MovieModel.id' m, NamedModel.id' g)
               \<in> assoc \<union> (\<lambda>g. (MovieModel.id' m, NamedModel.id' g)) ` set objs]
             = [g \<leftarrow> tbl. g \<in> set objs]"
    by (intro filter_cong) simp_all
  then show ?thesis by (simp add: load_related_def)
qed

text \<open>The names of the rows that bear a name of the list: every name of it, once.\<close>

lemma names_of_selected:
  assumes unique: "distinct (map NamedModel.name tbl)"
      and present: "set ns \<subseteq> NamedModel.name ` set tbl"
  shows "image_mset NamedModel.name (mset [g \<leftarrow> tbl. NamedModel.name g \<in> set ns]) = mset (remdups ns)"
proof -
  have d: "distinct (map NamedModel.name [g \<leftarrow> tbl. NamedModel.name g \<in> set ns])"
    using unique by (rule distinct_map_filter)
  have s: "set (map NamedModel.name [g \<leftarrow> tbl. NamedModel.name g \<in> set ns]) = set (remdups ns)"
    using present by auto
  have "mset (map NamedModel.name [g \<leftarrow> tbl. NamedModel.name g \<in> set ns]) = mset (remdups ns)"
    using d s set_eq_iff_mset_eq_distinct [of "map NamedModel.name [g \<leftarrow> tbl. NamedModel.name g \<in> set ns]" "remdups ns"]
    by (simp only: distinct_remdups)
  then show ?thesis by (simp only: mset_map)
qed

lemma next_id_no_row: "x \<in> set xs \<Longrightarrow> f x \<noteq> next_id (map f xs)"
  using next_id_not_in [of f xs] by (metis imageI)

text \<open>The country that a new movie refers to is the one its relationship loads.\<close>

lemma first_filter_single: "filter P xs = [x] \<Longrightarrow> first (filter P xs) = Some x"
  by simp

lemma load_country_new:
  assumes lookup: "scalar_one_or_none
           [c \<leftarrow> tbl. CountryModel.code c = k] = Inr found"
      and keys: "distinct (map CountryModel.id' tbl)"
  shows "\<exists>c. first [x \<leftarrow> (case found of Some c \<Rightarrow> tbl
                            | None \<Rightarrow> tbl @ [\<lparr>CountryModel.id' = next_id (map CountryModel.id' tbl),
                                              code = k, name = None\<rparr>]).
                    CountryModel.id' x = (case found of Some c \<Rightarrow> CountryModel.id' c
                                          | None \<Rightarrow> next_id (map CountryModel.id' tbl))] = Some c
             \<and> CountryModel.code c = k"
proof (cases found)
  case None
  have "\<forall>x \<in> set tbl. CountryModel.id' x \<noteq> next_id (map CountryModel.id' tbl)"
    by (simp add: next_id_no_row)
  then have "[x \<leftarrow> tbl. CountryModel.id' x = next_id (map CountryModel.id' tbl)] = []"
    by (simp add: filter_empty_conv)
  then show ?thesis using None by simp
next
  case (Some c)
  then have "[c \<leftarrow> tbl. CountryModel.code c = k] = [c]"
    using lookup by (simp add: scalar_one_or_none_Inr)
  then have "c \<in> set tbl" and "CountryModel.code c = k"
    using filter_single_mem [of "\<lambda>c. CountryModel.code c = k" tbl c] by simp_all
  moreover have "[x \<leftarrow> tbl. CountryModel.id' x = CountryModel.id' c] = [c]"
    using filter_unique_key [OF keys \<open>c \<in> set tbl\<close>] .
  ultimately show ?thesis using Some by simp
qed


section \<open>Consistency is kept\<close>

text \<open>
  The hypotheses on the store in the properties above are not lost along the way: a
  creation, whatever its outcome, and a deletion leave a consistent store consistent.
\<close>

lemma create_movie_consistent:
  assumes cons: "consistent db"
      and run: "create_movie db body = (res, db')"
  shows "consistent db'"
proof (cases res)
  case (Inl e)
  then have "db' = db"
    using run
    by (auto simp add: create_movie_def Let_def split: sum.splits option.splits prod.splits)
  then show ?thesis using cons by simp
next
  case (Inr new_movie)
  then have created: "create_movie db body = (Inr new_movie, db')"
    using run by simp
  from created obtain found genre_objs genres' actor_objs actors' language_objs languages'
    where no_dup: "[m \<leftarrow> Database.movies db.
            MovieModel.name m = Some (MovieBaseSchema.name body)
            \<and> MovieModel.date m = Some (MovieBaseSchema.date body)] = []"
    and lookup: "scalar_one_or_none
           [c \<leftarrow> countries db. CountryModel.code c = MovieCreateSchema.country body] = Inr found"
    and g: "get_or_create (Database.genres db) (MovieCreateSchema.genres body) = Inr (genre_objs, genres')"
    and a: "get_or_create (Database.actors db) (MovieCreateSchema.actors body) = Inr (actor_objs, actors')"
    and l: "get_or_create (Database.languages db) (MovieCreateSchema.languages body)
           = Inr (language_objs, languages')"
    and key: "MovieModel.id' new_movie = next_id (map MovieModel.id' (Database.movies db))"
    and nm: "MovieModel.name new_movie = Some (MovieBaseSchema.name body)"
    and dt: "MovieModel.date new_movie = Some (MovieBaseSchema.date body)"
    and movies': "Database.movies db' = Database.movies db @ [new_movie]"
    and countries': "countries db' =
             (case found of
                Some c \<Rightarrow> countries db
              | None \<Rightarrow> countries db
                  @ [\<lparr>CountryModel.id' = next_id (map CountryModel.id' (countries db)),
                      code = MovieCreateSchema.country body, name = None\<rparr>])"
    and genres': "Database.genres db' = genres'"
    and actors': "Database.actors db' = actors'"
    and languages': "Database.languages db' = languages'"
    and mg: "movies_genres db' = movies_genres db
             \<union> (\<lambda>g. (MovieModel.id' new_movie, NamedModel.id' g)) ` set genre_objs"
    and am: "actors_movies db' = actors_movies db
             \<union> (\<lambda>a. (MovieModel.id' new_movie, NamedModel.id' a)) ` set actor_objs"
    and ml: "movies_languages db' = movies_languages db
             \<union> (\<lambda>l. (MovieModel.id' new_movie, NamedModel.id' l)) ` set language_objs"
    by (rule create_movie_Inr) simp
  have c1: "distinct (map MovieModel.id' (Database.movies db'))"
    using cons next_id_not_in [of MovieModel.id' "Database.movies db"]
    by (simp add: movies' key consistent_def)
  have "\<forall>m \<in> set (Database.movies db).
          (MovieModel.name m, MovieModel.date m)
          \<noteq> (Some (MovieBaseSchema.name body), Some (MovieBaseSchema.date body))"
    using no_dup by (simp add: filter_empty_conv)
  then have c2: "distinct (map (\<lambda>m. (MovieModel.name m, MovieModel.date m)) (Database.movies db'))"
    using cons by (auto simp add: movies' nm dt consistent_def)
  have c3: "distinct (map CountryModel.id' (countries db'))"
    using cons next_id_not_in [of CountryModel.id' "countries db"]
    by (cases found) (simp_all add: countries' consistent_def)
  have c4: "distinct (map CountryModel.code (countries db'))"
  proof (cases found)
    case None
    then have "[c \<leftarrow> countries db. CountryModel.code c = MovieCreateSchema.country body] = []"
      using lookup by (simp add: scalar_one_or_none_Inr)
    then have "MovieCreateSchema.country body \<notin> CountryModel.code ` set (countries db)"
      by (auto simp add: filter_empty_conv)
    then show ?thesis using cons None by (simp add: countries' consistent_def)
  next
    case (Some c)
    then show ?thesis using cons by (simp add: countries' consistent_def)
  qed
  have c5: "distinct (map NamedModel.id' (Database.genres db'))"
      "distinct (map NamedModel.name (Database.genres db'))"
    using get_or_create_props [OF g] cons by (simp_all add: genres' consistent_def)
  have c6: "distinct (map NamedModel.id' (Database.actors db'))"
      "distinct (map NamedModel.name (Database.actors db'))"
    using get_or_create_props [OF a] cons by (simp_all add: actors' consistent_def)
  have c7: "distinct (map NamedModel.id' (Database.languages db'))"
      "distinct (map NamedModel.name (Database.languages db'))"
    using get_or_create_props [OF l] cons by (simp_all add: languages' consistent_def)
  have c8: "\<forall>r \<in> movies_genres db'. fst r \<in> MovieModel.id' ` set (Database.movies db')"
      "\<forall>r \<in> actors_movies db'. fst r \<in> MovieModel.id' ` set (Database.movies db')"
      "\<forall>r \<in> movies_languages db'. fst r \<in> MovieModel.id' ` set (Database.movies db')"
    using cons by (auto simp add: mg am ml movies' consistent_def)
  show ?thesis
    unfolding consistent_def using c1 c2 c3 c4 c5 c6 c7 c8 by blast
qed

lemma distinct_map_filter_keep: "distinct (map f xs) \<Longrightarrow> distinct (map f (filter P xs))"
  by (induction xs) auto

lemma delete_movie_consistent:
  assumes cons: "consistent db"
      and run: "delete_movie db movie_id = (res, db')"
  shows "consistent db'"
proof (cases res)
  case (Inl e)
  then have "db' = db"
    using run by (auto simp add: delete_movie_def split: sum.splits option.splits)
  then show ?thesis using cons by simp
next
  case (Inr u)
  then obtain movie where
      sel: "[m \<leftarrow> Database.movies db. MovieModel.id' m = movie_id] = [movie]"
    and db': "db' = db\<lparr>Database.movies :=
                 [m \<leftarrow> Database.movies db. MovieModel.id' m \<noteq> MovieModel.id' movie],
               movies_genres := {r \<in> movies_genres db. fst r \<noteq> MovieModel.id' movie},
               actors_movies := {r \<in> actors_movies db. fst r \<noteq> MovieModel.id' movie},
               movies_languages :=
                 {r \<in> movies_languages db. fst r \<noteq> MovieModel.id' movie}\<rparr>"
    using run
    by (auto simp add: delete_movie_def scalar_one_or_none_Inr split: sum.splits option.splits)
  have owned: "\<And>assoc. \<forall>r \<in> assoc. fst r \<in> MovieModel.id' ` set (Database.movies db)
        \<Longrightarrow> \<forall>r \<in> {r \<in> assoc. fst r \<noteq> MovieModel.id' movie}.
              fst r \<in> MovieModel.id' ` set [m \<leftarrow> Database.movies db. MovieModel.id' m \<noteq> MovieModel.id' movie]"
    by auto
  have rows: "\<forall>r \<in> movies_genres db'. fst r \<in> MovieModel.id' ` set (Database.movies db')"
      "\<forall>r \<in> actors_movies db'. fst r \<in> MovieModel.id' ` set (Database.movies db')"
      "\<forall>r \<in> movies_languages db'. fst r \<in> MovieModel.id' ` set (Database.movies db')"
    using cons owned [of "movies_genres db"] owned [of "actors_movies db"]
      owned [of "movies_languages db"]
    by (simp_all add: consistent_def db')
  have tables: "distinct (map MovieModel.id' (Database.movies db'))"
      "distinct (map (\<lambda>m. (MovieModel.name m, MovieModel.date m)) (Database.movies db'))"
      "countries db' = countries db" "Database.genres db' = Database.genres db"
      "Database.actors db' = Database.actors db" "Database.languages db' = Database.languages db"
    using cons by (simp_all add: consistent_def db' distinct_map_filter_keep)
  show ?thesis
    unfolding consistent_def using cons rows tables by (simp add: consistent_def)
qed

lemma consistent_empty_db: "consistent empty_db"
  by (simp add: consistent_def empty_db_def)

lemma filter_selected:
  assumes "set objs = {g \<in> set tbl. P g}"
  shows "[g \<leftarrow> tbl. g \<in> set objs] = [g \<leftarrow> tbl. P g]"
  using assms by (intro filter_cong) auto

text \<open>
  C3, as amended. For a body that passes the creation schema, in a consistent store with
  no movie of the same name and date, the route answers 201 with the summary of the new
  movie: the key the store assigned, fresh, and the name, date, score and overview of
  the body, nothing else. The committed store is consistent again and the movie is
  linked in it to the resolved lookup rows: reading it by that key succeeds and gives
  the scalars of the body, the one country with the body's code, and as genres, actors
  and languages the rows of the lookup tables that bear a name of the body, so every
  such name once, in no order of the program's. The lookup tables are the old ones
  followed by rows for the names that no old row had.
\<close>

theorem create_movie_succeeds:
  assumes ok: "MovieCreateSchema_ok today statuses body"
      and fresh: "\<forall>m \<in> set (Database.movies db).
                    \<not> (MovieModel.name m = Some (MovieBaseSchema.name body)
                       \<and> MovieModel.date m = Some (MovieBaseSchema.date body))"
      and cons: "consistent db"
  shows "\<exists>r db' d c.
           route_create_movie today statuses db body = (Inr (201, r), db')
           \<and> r = \<lparr>MovieBaseSchema.name = MovieBaseSchema.name body,
                   date = MovieBaseSchema.date body,
                   score = MovieBaseSchema.score body,
                   overview = MovieBaseSchema.overview body,
                   MovieResponseSchema.id' = next_id (map MovieModel.id' (Database.movies db))\<rparr>
           \<and> MovieResponseSchema.id' r \<notin> MovieModel.id' ` set (Database.movies db)
           \<and> consistent db'
           \<and> get_movie today statuses db' (MovieResponseSchema.id' r) = Inr d
           \<and> MovieResponseSchema.id' d = MovieResponseSchema.id' r
           \<and> MovieBaseSchema.name d = MovieBaseSchema.name body
           \<and> MovieBaseSchema.date d = MovieBaseSchema.date body
           \<and> MovieBaseSchema.score d = MovieBaseSchema.score body
           \<and> MovieBaseSchema.overview d = MovieBaseSchema.overview body
           \<and> MovieDetailResponseSchema.status d = MovieCreateSchema.status body
           \<and> MovieDetailResponseSchema.budget d = MovieCreateSchema.budget body
           \<and> MovieDetailResponseSchema.revenue d = MovieCreateSchema.revenue body
           \<and> [x \<leftarrow> countries db'. CountryModel.code x = MovieCreateSchema.country body] = [c]
           \<and> MovieDetailResponseSchema.country d = CountryResponse_of c
           \<and> MovieDetailResponseSchema.genres d =
               image_mset GenreResponse_of
                 (mset [g \<leftarrow> Database.genres db'. NamedModel.name g \<in> set (MovieCreateSchema.genres body)])
           \<and> MovieDetailResponseSchema.actors d =
               image_mset GenreResponse_of
                 (mset [g \<leftarrow> Database.actors db'. NamedModel.name g \<in> set (MovieCreateSchema.actors body)])
           \<and> MovieDetailResponseSchema.languages d =
               image_mset GenreResponse_of
                 (mset [g \<leftarrow> Database.languages db'.
                          NamedModel.name g \<in> set (MovieCreateSchema.languages body)])
           \<and> image_mset GenreResponse.name (MovieDetailResponseSchema.genres d)
               = mset (remdups (MovieCreateSchema.genres body))
           \<and> image_mset GenreResponse.name (MovieDetailResponseSchema.actors d)
               = mset (remdups (MovieCreateSchema.actors body))
           \<and> image_mset GenreResponse.name (MovieDetailResponseSchema.languages d)
               = mset (remdups (MovieCreateSchema.languages body))
           \<and> (\<exists>new. Database.genres db' = Database.genres db @ new
                  \<and> NamedModel.name ` set new
                      = set (MovieCreateSchema.genres body) - NamedModel.name ` set (Database.genres db))
           \<and> (\<exists>new. Database.actors db' = Database.actors db @ new
                  \<and> NamedModel.name ` set new
                      = set (MovieCreateSchema.actors body) - NamedModel.name ` set (Database.actors db))
           \<and> (\<exists>new. Database.languages db' = Database.languages db @ new
                  \<and> NamedModel.name ` set new
                      = set (MovieCreateSchema.languages body)
                        - NamedModel.name ` set (Database.languages db))"
proof -
  let ?key = "next_id (map MovieModel.id' (Database.movies db))"
  have no_dup: "[m \<leftarrow> Database.movies db.
            MovieModel.name m = Some (MovieBaseSchema.name body)
            \<and> MovieModel.date m = Some (MovieBaseSchema.date body)] = []"
    using fresh by (simp add: filter_empty_conv)
  have codes: "distinct (map CountryModel.code (countries db))"
    and country_keys: "distinct (map CountryModel.id' (countries db))"
    and genre_names: "distinct (map NamedModel.name (Database.genres db))"
    and actor_names: "distinct (map NamedModel.name (Database.actors db))"
    and language_names: "distinct (map NamedModel.name (Database.languages db))"
    using cons by (simp_all add: consistent_def)
  obtain found where lookup: "scalar_one_or_none
           [c \<leftarrow> countries db. CountryModel.code c = MovieCreateSchema.country body] = Inr found"
    using scalar_one_or_none_unique [OF codes] by blast
  obtain genre_objs genres' where
    g: "get_or_create (Database.genres db) (MovieCreateSchema.genres body) = Inr (genre_objs, genres')"
    using get_or_create_total [OF genre_names] by blast
  obtain actor_objs actors' where
    a: "get_or_create (Database.actors db) (MovieCreateSchema.actors body) = Inr (actor_objs, actors')"
    using get_or_create_total [OF actor_names] by blast
  obtain language_objs languages' where
    l: "get_or_create (Database.languages db) (MovieCreateSchema.languages body)
          = Inr (language_objs, languages')"
    using get_or_create_total [OF language_names] by blast
  define countries' where countries': "countries' =
             (case found of
                Some c \<Rightarrow> countries db
              | None \<Rightarrow> countries db
                  @ [\<lparr>CountryModel.id' = next_id (map CountryModel.id' (countries db)),
                      code = MovieCreateSchema.country body, name = None\<rparr>])"
  define new_movie where new_movie: "new_movie =
            \<lparr>MovieModel.id' = ?key,
             name = Some (MovieBaseSchema.name body),
             date = Some (MovieBaseSchema.date body),
             score = Some (MovieBaseSchema.score body),
             overview = Some (MovieBaseSchema.overview body),
             status = Some (MovieCreateSchema.status body),
             budget = Some (MovieCreateSchema.budget body),
             revenue = Some (MovieCreateSchema.revenue body),
             country_id =
               (case found of
                  Some c \<Rightarrow> CountryModel.id' c
                | None \<Rightarrow> next_id (map CountryModel.id' (countries db)))\<rparr>"
  define db' where db': "db' =
          \<lparr>Database.movies = Database.movies db @ [new_movie],
           countries = countries',
           genres = genres',
           actors = actors',
           languages = languages',
           movies_genres = movies_genres db
             \<union> (\<lambda>g. (MovieModel.id' new_movie, NamedModel.id' g)) ` set genre_objs,
           actors_movies = actors_movies db
             \<union> (\<lambda>a. (MovieModel.id' new_movie, NamedModel.id' a)) ` set actor_objs,
           movies_languages = movies_languages db
             \<union> (\<lambda>l. (MovieModel.id' new_movie, NamedModel.id' l)) ` set language_objs\<rparr>"
  have created: "create_movie db body = (Inr new_movie, db')"
    using no_dup lookup g a l
    by (cases found) (simp_all add: create_movie_def Let_def new_movie db' countries')
  have cons': "consistent db'"
    using cons created by (rule create_movie_consistent)
  have key_fresh: "?key \<notin> MovieModel.id' ` set (Database.movies db)"
    by (rule next_id_not_in)
  have not_stored: "[m \<leftarrow> Database.movies db. MovieModel.id' m = ?key] = []"
    by (simp add: filter_empty_conv next_id_no_row)
  have key: "MovieModel.id' new_movie = ?key"
    by (simp add: new_movie)
  have owned:
      "\<forall>r \<in> movies_genres db. fst r \<noteq> MovieModel.id' new_movie"
      "\<forall>r \<in> actors_movies db. fst r \<noteq> MovieModel.id' new_movie"
      "\<forall>r \<in> movies_languages db. fst r \<noteq> MovieModel.id' new_movie"
    using cons key_fresh by (simp_all add: consistent_def key) metis+
  have gp: "set genre_objs \<subseteq> set genres'" "distinct (map NamedModel.id' genres')"
      "distinct (map NamedModel.name genres')"
    using get_or_create_props [OF g] cons by (simp_all add: consistent_def)
  have ap: "set actor_objs \<subseteq> set actors'" "distinct (map NamedModel.id' actors')"
      "distinct (map NamedModel.name actors')"
    using get_or_create_props [OF a] cons by (simp_all add: consistent_def)
  have lp: "set language_objs \<subseteq> set languages'" "distinct (map NamedModel.id' languages')"
      "distinct (map NamedModel.name languages')"
    using get_or_create_props [OF l] cons by (simp_all add: consistent_def)
  have lg: "load_related (movies_genres db') (Database.genres db') new_movie
            = mset [g \<leftarrow> genres'. NamedModel.name g \<in> set (MovieCreateSchema.genres body)]"
    using load_related_new [OF owned(1) gp(1) gp(2)]
    by (simp only: filter_selected [OF get_or_create_objs [OF genre_names g]])
      (simp add: db')
  have la: "load_related (actors_movies db') (Database.actors db') new_movie
            = mset [g \<leftarrow> actors'. NamedModel.name g \<in> set (MovieCreateSchema.actors body)]"
    using load_related_new [OF owned(2) ap(1) ap(2)]
    by (simp only: filter_selected [OF get_or_create_objs [OF actor_names a]])
      (simp add: db')
  have ll: "load_related (movies_languages db') (Database.languages db') new_movie
            = mset [g \<leftarrow> languages'. NamedModel.name g \<in> set (MovieCreateSchema.languages body)]"
    using load_related_new [OF owned(3) lp(1) lp(2)]
    by (simp only: filter_selected [OF get_or_create_objs [OF language_names l]])
      (simp add: db')
  have present:
      "set (MovieCreateSchema.genres body) \<subseteq> NamedModel.name ` set genres'"
      "set (MovieCreateSchema.actors body) \<subseteq> NamedModel.name ` set actors'"
      "set (MovieCreateSchema.languages body) \<subseteq> NamedModel.name ` set languages'"
    using get_or_create_objs [OF genre_names g] get_or_create_props [OF g]
      get_or_create_objs [OF actor_names a] get_or_create_props [OF a]
      get_or_create_objs [OF language_names l] get_or_create_props [OF l]
    by (metis (no_types, lifting) image_mono list.set_map subset_trans order_refl)+
  obtain c where
      country: "first [x \<leftarrow> countries'. CountryModel.id' x = country_id new_movie] = Some c"
    and code: "CountryModel.code c = MovieCreateSchema.country body"
    using load_country_new [OF lookup country_keys] by (auto simp add: countries' new_movie)
  have c_in: "c \<in> set countries'"
  proof -
    have "[x \<leftarrow> countries'. CountryModel.id' x = country_id new_movie] \<noteq> []"
      using country by auto
    then obtain rest where "[x \<leftarrow> countries'. CountryModel.id' x = country_id new_movie] = c # rest"
      using country by (cases "[x \<leftarrow> countries'. CountryModel.id' x = country_id new_movie]") simp_all
    then have "c \<in> set [x \<leftarrow> countries'. CountryModel.id' x = country_id new_movie]"
      by (simp only: list.set_intros)
    then show ?thesis by simp
  qed
  have "distinct (map CountryModel.code countries')"
    using cons' by (simp add: consistent_def db')
  then have one: "[x \<leftarrow> countries'. CountryModel.code x = MovieCreateSchema.country body] = [c]"
    using filter_unique_key [of CountryModel.code countries' c] c_in code by simp
  have lc: "load_country db' new_movie = Some c"
    using country by (simp add: load_country_def db')
  let ?r = "\<lparr>MovieBaseSchema.name = MovieBaseSchema.name body,
                   date = MovieBaseSchema.date body,
                   score = MovieBaseSchema.score body,
                   overview = MovieBaseSchema.overview body,
                   MovieResponseSchema.id' = ?key\<rparr>"
  have summary: "MovieResponseSchema_validate today new_movie = Some ?r"
    using ok by (simp add: MovieResponseSchema_validate_def MovieCreateSchema_ok_def new_movie)
  have route: "route_create_movie today statuses db body = (Inr (201, ?r), db')"
    using ok created summary by (simp add: route_create_movie_def)
  have sel: "first [m \<leftarrow> Database.movies db'. MovieModel.id' m = ?key] = Some new_movie"
    using not_stored key by (simp add: db')
  have member: "MovieCreateSchema.status body \<in> set statuses"
    using ok by (simp add: MovieCreateSchema_ok_def)
  obtain d where d: "get_movie today statuses db' ?key = Inr d"
    and detail: "d = \<lparr>MovieBaseSchema.name = MovieBaseSchema.name body,
                     date = MovieBaseSchema.date body,
                     score = MovieBaseSchema.score body,
                     overview = MovieBaseSchema.overview body,
                     MovieResponseSchema.id' = ?key,
                     MovieDetailResponseSchema.status = MovieCreateSchema.status body,
                     budget = MovieCreateSchema.budget body,
                     revenue = MovieCreateSchema.revenue body,
                     country = CountryResponse_of c,
                     genres = image_mset GenreResponse_of
                       (mset [g \<leftarrow> genres'. NamedModel.name g \<in> set (MovieCreateSchema.genres body)]),
                     actors = image_mset GenreResponse_of
                       (mset [g \<leftarrow> actors'. NamedModel.name g \<in> set (MovieCreateSchema.actors body)]),
                     languages = image_mset GenreResponse_of
                       (mset [g \<leftarrow> languages'.
                                NamedModel.name g \<in> set (MovieCreateSchema.languages body)])\<rparr>"
    using sel summary member lc lg la ll
    by (simp add: get_movie_def MovieDetailResponseSchema_validate_def new_movie)
  have scalars: "MovieResponseSchema.id' d = ?key"
      "MovieBaseSchema.name d = MovieBaseSchema.name body"
      "MovieBaseSchema.date d = MovieBaseSchema.date body"
      "MovieBaseSchema.score d = MovieBaseSchema.score body"
      "MovieBaseSchema.overview d = MovieBaseSchema.overview body"
      "MovieDetailResponseSchema.status d = MovieCreateSchema.status body"
      "MovieDetailResponseSchema.budget d = MovieCreateSchema.budget body"
      "MovieDetailResponseSchema.revenue d = MovieCreateSchema.revenue body"
    by (simp_all add: detail)
  have tables: "countries db' = countries'" "Database.genres db' = genres'"
      "Database.actors db' = actors'" "Database.languages db' = languages'"
    by (simp_all add: db')
  have nested: "MovieDetailResponseSchema.country d = CountryResponse_of c"
      "MovieDetailResponseSchema.genres d =
         image_mset GenreResponse_of
           (mset [g \<leftarrow> genres'. NamedModel.name g \<in> set (MovieCreateSchema.genres body)])"
      "MovieDetailResponseSchema.actors d =
         image_mset GenreResponse_of
           (mset [g \<leftarrow> actors'. NamedModel.name g \<in> set (MovieCreateSchema.actors body)])"
      "MovieDetailResponseSchema.languages d =
         image_mset GenreResponse_of
           (mset [g \<leftarrow> languages'. NamedModel.name g \<in> set (MovieCreateSchema.languages body)])"
    by (simp_all add: detail)
  have of_name: "\<And>M. image_mset GenreResponse.name (image_mset GenreResponse_of M)
                     = image_mset NamedModel.name M"
    by (simp add: GenreResponse_of_def multiset.map_comp comp_def)
  have names:
      "image_mset GenreResponse.name (MovieDetailResponseSchema.genres d)
         = mset (remdups (MovieCreateSchema.genres body))"
      "image_mset GenreResponse.name (MovieDetailResponseSchema.actors d)
         = mset (remdups (MovieCreateSchema.actors body))"
      "image_mset GenreResponse.name (MovieDetailResponseSchema.languages d)
         = mset (remdups (MovieCreateSchema.languages body))"
    using names_of_selected [OF gp(3) present(1)] names_of_selected [OF ap(3) present(2)]
      names_of_selected [OF lp(3) present(3)]
    by (simp_all only: nested of_name)
  have grown:
      "\<exists>new. genres' = Database.genres db @ new
          \<and> NamedModel.name ` set new
              = set (MovieCreateSchema.genres body) - NamedModel.name ` set (Database.genres db)"
      "\<exists>new. actors' = Database.actors db @ new
          \<and> NamedModel.name ` set new
              = set (MovieCreateSchema.actors body) - NamedModel.name ` set (Database.actors db)"
      "\<exists>new. languages' = Database.languages db @ new
          \<and> NamedModel.name ` set new
              = set (MovieCreateSchema.languages body)
                - NamedModel.name ` set (Database.languages db)"
    using get_or_create_table [OF g] get_or_create_table [OF a] get_or_create_table [OF l]
    by simp_all
  have head: "route_create_movie today statuses db body = (Inr (201, ?r), db')
           \<and> ?r = ?r
           \<and> MovieResponseSchema.id' ?r \<notin> MovieModel.id' ` set (Database.movies db)
           \<and> consistent db'
           \<and> get_movie today statuses db' (MovieResponseSchema.id' ?r) = Inr d
           \<and> MovieResponseSchema.id' d = MovieResponseSchema.id' ?r"
    using route key_fresh cons' d scalars(1) by simp
  show ?thesis
    apply (intro exI [of _ ?r] exI [of _ db'] exI [of _ d] exI [of _ c])
    using head scalars(2-) one nested names grown
    by (simp only: tables) blast
qed


theorem create_movie_succeeds_witness:
  "fst (route_create_movie 739923 example_statuses dune_db sequel) =
     Inr (201, \<lparr>MovieBaseSchema.name = ''Dune: Part Two'', date = 738946, score = 83,
                 overview = ''...'', MovieResponseSchema.id' = 2\<rparr>)
   \<and> (case get_movie 739923 example_statuses
              (snd (route_create_movie 739923 example_statuses dune_db sequel)) 2 of
         Inl e \<Rightarrow> None
       | Inr d \<Rightarrow> Some (MovieDetailResponseSchema.country d, MovieDetailResponseSchema.genres d))
      = Some (\<lparr>CountryResponse.id' = 1, code = ''USA'', name = None\<rparr>,
              {#\<lparr>GenreResponse.id' = 1, name = ''Sci-Fi''\<rparr>,
                \<lparr>GenreResponse.id' = 2, name = ''Action''\<rparr>#})
   \<and> movies_genres (snd (route_create_movie 739923 example_statuses dune_db sequel))
      = {(1, 1), (2, 1), (2, 2)}"
proof -
  have ok: "MovieCreateSchema_ok 739923 example_statuses sequel"
    by (simp add: MovieCreateSchema_ok_def MovieBaseSchema_ok_def date_not_too_far_def
        sequel_def dune_part_two_def dune_def example_statuses_def)
  have fresh: "\<forall>m \<in> set (Database.movies dune_db).
                    \<not> (MovieModel.name m = Some (MovieBaseSchema.name sequel)
                       \<and> MovieModel.date m = Some (MovieBaseSchema.date sequel))"
    by (simp add: dune_db_def dune_row_def sequel_def dune_part_two_def dune_def)
  have cons: "consistent dune_db"
    by (simp add: consistent_def dune_db_def dune_row_def)
  have rows: "{(1, 1), (2, 2), (2, 1), (2, 2)} = {(1::int, 1::int), (2, 1), (2, 2)}"
    by auto
  show ?thesis
    using create_movie_succeeds [OF ok fresh cons] rows
    by (simp add: route_create_movie_def create_movie_def get_movie_def Let_def next_id_def
        MovieCreateSchema_ok_def MovieBaseSchema_ok_def date_not_too_far_def
        MovieResponseSchema_validate_def MovieDetailResponseSchema_validate_def
        load_country_def load_related_def CountryResponse_of_def GenreResponse_of_def
        sequel_def dune_part_two_def dune_def dune_db_def dune_row_def example_statuses_def)
qed

text \<open>
  C3 as stated fails on its own example: the body of the 201 is the summary, which has
  no country and no genres; the lookup rows are in the committed store only.
\<close>

theorem create_movie_returns_summary:
  "route_create_movie 739923 example_statuses empty_db dune =
     (Inr (201, \<lparr>MovieBaseSchema.name = ''Dune'', date = 738085, score = 83,
                 overview = ''...'', MovieResponseSchema.id' = 1\<rparr>), dune_db)"
  by (simp add: route_create_movie_def create_movie_def Let_def next_id_def
      MovieCreateSchema_ok_def MovieBaseSchema_ok_def date_not_too_far_def
      MovieResponseSchema_validate_def dune_def dune_db_def dune_row_def empty_db_def
      example_statuses_def)

end
